theory Spec2Isabelle
  imports Main "HOL-Library.Sublist" "HOL-Library.Multiset"
begin

text \<open>
  The backend of the task dashboard: registration, login and profile, the middleware that
  checks the bearer token, the handlers that list, read, create, update and delete the
  tasks of a user, the validation in front of the routes, and the repository under them.
  Each handler is a function of what it reads from the request and of the store,
  returning the response it sends and the store it leaves.
\<close>

section \<open>Strings and arrays\<close>

text \<open>
  A string is the list of the bytes of its UTF-8 encoding. The test for a prefix, the
  split at an ASCII character, the test for a substring and the test for emptiness read
  the same on these bytes as on the code units of well-formed text. What depends on the
  tables of Unicode or on the count of characters (\<open>toLowerCase\<close>, \<open>trim\<close>, the
  validators for addresses and lengths) is not defined here but taken from outside,
  see the record \<open>env\<close> below.
\<close>

definition startsWith :: "string \<Rightarrow> string \<Rightarrow> bool" where
  "startsWith s p = (take (length p) s = p)"

text \<open>\<open>s.split(sep)\<close> for a one-character separator: never empty, \<open>''''.split(sep) = ['''']\<close>.\<close>

fun split :: "char \<Rightarrow> string \<Rightarrow> string list" where
  "split sep [] = [[]]"
| "split sep (c # cs) =
     (if c = sep then [] # split sep cs
      else (case split sep cs of [] \<Rightarrow> [[c]] | w # ws \<Rightarrow> (c # w) # ws))"

text \<open>Indexing an array: \<open>undefined\<close> out of range.\<close>

definition index :: "'a list \<Rightarrow> nat \<Rightarrow> 'a option" where
  "index xs i = (if i < length xs then Some (xs ! i) else None)"

text \<open>\<open>s.includes(q)\<close>: \<open>q\<close> occurs in \<open>s\<close> as a contiguous substring.\<close>

fun str_includes :: "string \<Rightarrow> string \<Rightarrow> bool" where
  "str_includes [] q = (q = [])"
| "str_includes (c # cs) q = (take (length q) (c # cs) = q \<or> str_includes cs q)"

text \<open>
  \<open>xs.sort(cmp)\<close>: the stable sort by a comparator. An element is placed before the
  first later element that does not have to precede it (\<open>cmp x y \<le> 0\<close>).
\<close>

fun insert_by :: "('a \<Rightarrow> 'a \<Rightarrow> int) \<Rightarrow> 'a \<Rightarrow> 'a list \<Rightarrow> 'a list" where
  "insert_by cmp x [] = [x]"
| "insert_by cmp x (y # ys) = (if cmp x y \<le> 0 then x # y # ys else y # insert_by cmp x ys)"

definition sort_by :: "('a \<Rightarrow> 'a \<Rightarrow> int) \<Rightarrow> 'a list \<Rightarrow> 'a list" where
  "sort_by cmp xs = foldr (insert_by cmp) xs []"

section \<open>Data model (types/index.ts)\<close>

text \<open>
  Timestamps (\<open>createdAt\<close>, \<open>updatedAt\<close>) are the milliseconds since the epoch that
  \<open>new Date(x).getTime()\<close> reads from them. Status and priority are the strings the
  requests and the database rows carry.

  The type \<open>Task\<close> declares the due date as \<open>string | null\<close>, and a request body
  carries it as such; \<open>mapTaskFromDb\<close> passes on whatever the database driver makes of
  the \<open>DATE\<close> column, and \<open>saveTask\<close> handles a string, a \<open>Date\<close> object and
  \<open>null\<close>. So a due date that is present is a string or a \<open>Date\<close> object, the latter
  given by its time value.
\<close>

datatype due = DateString string | DateObject int

record Task =
  task_id :: string
  title :: string
  description :: string
  status :: string
  priority :: string
  dueDate :: "due option"
  createdAt :: int
  updatedAt :: int
  userId :: string

record JwtPayload =
  jwt_userId :: string
  jwt_email :: string
  jwt_iat :: "int option"
  jwt_exp :: "int option"

record User =
  user_id :: string
  email :: string
  name :: string
  passwordHash :: string
  user_createdAt :: int

record RegisterBody =
  rb_email :: string
  rb_password :: string
  rb_name :: string

record LoginBody =
  lb_email :: string
  lb_password :: string

text \<open>
  A field of a request body that may be missing (\<open>undefined\<close>), \<open>null\<close> or a string:
  the \<open>dueDate?: string | null\<close> of \<open>TaskBody\<close>.
\<close>

datatype nullable = Undefined | Null | Value string

text \<open>
  \<open>TaskBody\<close> as the handlers destructure it. \<open>Partial<TaskBody>\<close> of the update
  handler makes the title optional too; the create handler reads a title that the
  validation of the route has made a string.
\<close>

record TaskBody =
  tb_title :: "string option"
  tb_description :: "string option"
  tb_status :: "string option"
  tb_priority :: "string option"
  tb_dueDate :: nullable

text \<open>
  The objects that are serialised: a user object is its list of properties, so that the
  rest pattern \<open>{ passwordHash: _omit, ...safeUser }\<close> is the removal of a key.
\<close>

datatype jvalue = JString string | JTime int

type_synonym object = "(string \<times> jvalue) list"

definition user_object :: "User \<Rightarrow> object" where
  "user_object u =
     [(''id'', JString (user_id u)), (''email'', JString (email u)), (''name'', JString (name u)),
      (''passwordHash'', JString (passwordHash u)), (''createdAt'', JTime (user_createdAt u))]"

definition omit :: "string \<Rightarrow> object \<Rightarrow> object" where
  "omit k obj = filter (\<lambda>kv. fst kv \<noteq> k) obj"

text \<open>The envelope \<open>ApiResponse\<close> with the HTTP status it is sent under.\<close>

datatype payload =
    TaskData Task
  | TasksData "Task list"
  | UserData object
  | AuthData string object

record response =
  code :: nat
  success :: bool
  data :: "payload option"
  message :: "string option"
  errors :: "string list option"

section \<open>What the handlers take from outside\<close>

text \<open>
  The language, the libraries, the database driver and the clock around one request:
  \<^item> \<open>uuid\<close>: the identifier \<open>uuidv4()\<close> returns;
  \<^item> \<open>now\<close>: the time \<open>new Date()\<close> reads; \<open>db_now\<close>: the time \<open>db.fn.now()\<close> writes;
  \<^item> \<open>tz_offset\<close>: the offset of the local time of the server from UTC, in milliseconds;
  \<^item> \<open>toLowerCase\<close>, \<open>trim\<close>: the methods of \<open>String.prototype\<close>;
  \<^item> \<open>toISOString\<close>: the method of \<open>Date.prototype\<close>, on the time value;
  \<^item> \<open>date_time\<close>: the time value of \<open>new Date(s)\<close> for a string (\<open>None\<close> for an
    invalid date);
  \<^item> \<open>date_column\<close>: what the driver hands to \<open>mapTaskFromDb\<close> as \<open>row.due_date\<close> for a
    \<open>DATE\<close> column that was written with the given text;
  \<^item> \<open>bcrypt_hash\<close>, \<open>bcrypt_compare\<close>, \<open>jwt_sign\<close>, \<open>jwt_verify\<close> (payload or token
    first, secret second), \<open>secret\<close> (the value of \<open>process.env.JWT_SECRET\<close>);
  \<^item> \<open>isEmail\<close>, \<open>isLength\<close> (the minimum first), \<open>isISO8601\<close>: the validators of the
    validator library with their default options.
\<close>

datatype jwt_error = TokenExpiredError | JsonWebTokenError | NotBeforeError

record env =
  uuid :: string
  now :: int
  db_now :: int
  tz_offset :: int
  toLowerCase :: "string \<Rightarrow> string"
  trim :: "string \<Rightarrow> string"
  toISOString :: "int \<Rightarrow> string"
  date_time :: "string \<Rightarrow> int option"
  date_column :: "string \<Rightarrow> due"
  bcrypt_hash :: "string \<Rightarrow> string"
  bcrypt_compare :: "string \<Rightarrow> string \<Rightarrow> bool"
  jwt_sign :: "JwtPayload \<Rightarrow> string \<Rightarrow> string"
  jwt_verify :: "string \<Rightarrow> string \<Rightarrow> jwt_error + JwtPayload"
  secret :: string
  isEmail :: "string \<Rightarrow> bool"
  isLength :: "nat \<Rightarrow> string \<Rightarrow> bool"
  isISO8601 :: "string \<Rightarrow> bool"

section \<open>The repository (config/repository.ts) over the two tables of the migrations\<close>

text \<open>
  A table is the list of its rows in retrieval order, each row as \<open>mapUserFromDb\<close> or
  \<open>mapTaskFromDb\<close> returns it. \<open>users.id\<close> is a primary key and \<open>users.email\<close> is
  unique: an insert that repeats either is rejected by the database and the promise of
  the handler is rejected with it. The foreign key of \<open>tasks.user_id\<close> is not modelled:
  the task handlers run behind \<open>authenticate\<close>, which has just found the user.
\<close>

record db =
  users :: "User list"
  tasks :: "Task list"

datatype failure = DuplicateEntry

definition findUserById :: "db \<Rightarrow> string \<Rightarrow> User option" where
  "findUserById d i = find (\<lambda>u. user_id u = i) (users d)"

text \<open>\<open>whereRaw('LOWER(email) = ?', [email.toLowerCase()])\<close>: lowercased, not trimmed.\<close>

definition findUserByEmail :: "env \<Rightarrow> db \<Rightarrow> string \<Rightarrow> User option" where
  "findUserByEmail ev d e =
     find (\<lambda>u. toLowerCase ev (email u) = toLowerCase ev e) (users d)"

definition saveUser :: "env \<Rightarrow> db \<Rightarrow> User \<Rightarrow> failure + db" where
  "saveUser ev d u =
     (if list_ex (\<lambda>r. user_id r = user_id u \<or> email r = email u) (users d)
      then Inl DuplicateEntry
      else Inr (d\<lparr>users := users d @ [u\<lparr>user_createdAt := db_now ev\<rparr>]\<rparr>))"

definition getTasksByUser :: "db \<Rightarrow> string \<Rightarrow> Task list" where
  "getTasksByUser d uid = filter (\<lambda>t. userId t = uid) (tasks d)"

definition findTaskById :: "db \<Rightarrow> string \<Rightarrow> Task option" where
  "findTaskById d i = find (\<lambda>t. task_id t = i) (tasks d)"

text \<open>
  The text \<open>saveTask\<close> writes to the \<open>DATE\<close> column: nothing for \<open>null\<close> and for the
  empty string (both falsy), the part before the first \<open>T\<close> for a string, and the part
  before the \<open>T\<close> of \<open>toISOString()\<close> for a \<open>Date\<close> object.
\<close>

definition formattedDueDate :: "env \<Rightarrow> due option \<Rightarrow> string option" where
  "formattedDueDate ev dd =
     (case dd of
        None \<Rightarrow> None
      | Some (DateString s) \<Rightarrow> if s = [] then None else index (split CHR ''T'' s) 0
      | Some (DateObject m) \<Rightarrow> index (split CHR ''T'' (toISOString ev m)) 0)"

text \<open>
  \<open>saveTask\<close> writes that text, stamps \<open>updated_at\<close> with the database clock, and on
  insert \<open>created_at\<close> too; an update leaves \<open>created_at\<close> alone. The row as it is read
  from then on has as due date what the driver makes of the column.
\<close>

definition saveTask :: "env \<Rightarrow> db \<Rightarrow> Task \<Rightarrow> db" where
  "saveTask ev d task =
     (let row = task\<lparr>dueDate := map_option (date_column ev) (formattedDueDate ev (dueDate task)),
                     updatedAt := db_now ev\<rparr>
      in case findTaskById d (task_id task) of
           Some existing \<Rightarrow>
             d\<lparr>tasks := map (\<lambda>r. if task_id r = task_id task
                                  then row\<lparr>createdAt := createdAt r\<rparr> else r) (tasks d)\<rparr>
         | None \<Rightarrow> d\<lparr>tasks := tasks d @ [row\<lparr>createdAt := db_now ev\<rparr>]\<rparr>)"

definition repo_deleteTask :: "db \<Rightarrow> string \<Rightarrow> bool \<times> db" where
  "repo_deleteTask d i =
     (list_ex (\<lambda>t. task_id t = i) (tasks d),
      d\<lparr>tasks := filter (\<lambda>t. task_id t \<noteq> i) (tasks d)\<rparr>)"

section \<open>Task handlers (controllers/taskController.ts)\<close>

text \<open>
  A value of \<open>req.query\<close>: missing, a string, an array (a parameter given more than
  once) or a nested object. \<open>v && typeof v === 'string'\<close> holds of the non-empty strings.
\<close>

datatype qvalue = QUndefined | QString string | QArray "string list" | QObject "(string \<times> string) list"

record query =
  q_status :: qvalue
  q_priority :: qvalue
  q_search :: qvalue

fun truthy :: "qvalue \<Rightarrow> bool" where
  "truthy QUndefined = False"
| "truthy (QString s) = (s \<noteq> [])"
| "truthy (QArray xs) = True"
| "truthy (QObject kvs) = True"

fun typeof_string :: "qvalue \<Rightarrow> bool" where
  "typeof_string (QString s) = True"
| "typeof_string v = False"

fun the_string :: "qvalue \<Rightarrow> string" where
  "the_string (QString s) = s"
| "the_string v = []"

definition not_found :: response where
  "not_found = \<lparr>code = 404, success = False, data = None,
                 message = Some ''Task not found.'', errors = None\<rparr>"

definition getTasks :: "env \<Rightarrow> string \<Rightarrow> query \<Rightarrow> db \<Rightarrow> response" where
  "getTasks ev uid q d =
     (let ts = getTasksByUser d uid;
          ts = (if truthy (q_status q) \<and> typeof_string (q_status q)
                then filter (\<lambda>t. QString (status t) = q_status q) ts else ts);
          ts = (if truthy (q_priority q) \<and> typeof_string (q_priority q)
                then filter (\<lambda>t. QString (priority t) = q_priority q) ts else ts);
          ts = (if truthy (q_search q) \<and> typeof_string (q_search q)
                then (let s = toLowerCase ev (the_string (q_search q))
                      in filter (\<lambda>t. str_includes (toLowerCase ev (title t)) s \<or>
                                      str_includes (toLowerCase ev (description t)) s) ts)
                else ts);
          ts = sort_by (\<lambda>a b. createdAt b - createdAt a) ts
      in \<lparr>code = 200, success = True, data = Some (TasksData ts), message = None, errors = None\<rparr>)"

definition getTaskById :: "string \<Rightarrow> string \<Rightarrow> db \<Rightarrow> response" where
  "getTaskById uid tid d =
     (case findTaskById d tid of
        None \<Rightarrow> not_found
      | Some task \<Rightarrow>
          if userId task \<noteq> uid then not_found
          else \<lparr>code = 200, success = True, data = Some (TaskData task),
                message = None, errors = None\<rparr>)"

text \<open>
  \<open>createTask\<close>: the defaults of the destructuring apply to a missing field; the title has
  passed \<open>trim().notEmpty()\<close> and is a string (a missing one would throw on \<open>trim\<close>, which
  the route excludes and the model reads as the empty string).
\<close>

definition createTask :: "env \<Rightarrow> string \<Rightarrow> TaskBody \<Rightarrow> db \<Rightarrow> response \<times> db" where
  "createTask ev uid body d =
     (let newTask = \<lparr>task_id = uuid ev,
                     title = trim ev (case tb_title body of None \<Rightarrow> [] | Some s \<Rightarrow> s),
                     description =
                       trim ev (case tb_description body of None \<Rightarrow> [] | Some s \<Rightarrow> s),
                     status = (case tb_status body of None \<Rightarrow> ''todo'' | Some s \<Rightarrow> s),
                     priority = (case tb_priority body of None \<Rightarrow> ''medium'' | Some s \<Rightarrow> s),
                     dueDate = (case tb_dueDate body of
                                  Value s \<Rightarrow> Some (DateString s) | _ \<Rightarrow> None),
                     createdAt = now ev, updatedAt = now ev, userId = uid\<rparr>
      in (\<lparr>code = 201, success = True, data = Some (TaskData newTask),
           message = Some ''Task created successfully.'', errors = None\<rparr>,
          saveTask ev d newTask))"

definition updateTask :: "env \<Rightarrow> string \<Rightarrow> string \<Rightarrow> TaskBody \<Rightarrow> db \<Rightarrow> response \<times> db" where
  "updateTask ev uid tid body d =
     (case findTaskById d tid of
        None \<Rightarrow> (not_found, d)
      | Some task \<Rightarrow>
          if userId task \<noteq> uid then (not_found, d)
          else
            (let updatedTask = task\<lparr>
                   title := (case tb_title body of Some s \<Rightarrow> trim ev s | None \<Rightarrow> title task),
                   description :=
                     (case tb_description body of
                        Some s \<Rightarrow> trim ev s | None \<Rightarrow> description task),
                   status := (case tb_status body of Some s \<Rightarrow> s | None \<Rightarrow> status task),
                   priority := (case tb_priority body of Some s \<Rightarrow> s | None \<Rightarrow> priority task),
                   dueDate := (case tb_dueDate body of
                                 Undefined \<Rightarrow> dueDate task
                               | Null \<Rightarrow> None
                               | Value s \<Rightarrow> Some (DateString s)),
                   updatedAt := now ev\<rparr>
             in (\<lparr>code = 200, success = True, data = Some (TaskData updatedTask),
                  message = Some ''Task updated successfully.'', errors = None\<rparr>,
                 saveTask ev d updatedTask)))"

definition deleteTask :: "string \<Rightarrow> string \<Rightarrow> db \<Rightarrow> response \<times> db" where
  "deleteTask uid tid d =
     (case findTaskById d tid of
        None \<Rightarrow> (not_found, d)
      | Some task \<Rightarrow>
          if userId task \<noteq> uid then (not_found, d)
          else (\<lparr>code = 200, success = True, data = None,
                 message = Some ''Task deleted successfully.'', errors = None\<rparr>,
                snd (repo_deleteTask d (task_id task))))"

section \<open>Register, login and profile (controllers/authController.ts)\<close>

definition conflict :: response where
  "conflict = \<lparr>code = 409, success = False, data = None,
                message = Some ''An account with this email already exists.'', errors = None\<rparr>"

definition invalid_credentials :: response where
  "invalid_credentials = \<lparr>code = 401, success = False, data = None,
                           message = Some ''Invalid email or password.'', errors = None\<rparr>"

definition register :: "env \<Rightarrow> RegisterBody \<Rightarrow> db \<Rightarrow> failure + response \<times> db" where
  "register ev body d =
     (case findUserByEmail ev d (rb_email body) of
        Some existing \<Rightarrow> Inr (conflict, d)
      | None \<Rightarrow>
          (let newUser = \<lparr>user_id = uuid ev,
                          email = trim ev (toLowerCase ev (rb_email body)),
                          name = trim ev (rb_name body),
                          passwordHash = bcrypt_hash ev (rb_password body),
                          user_createdAt = now ev\<rparr>
           in case saveUser ev d newUser of
                Inl e \<Rightarrow> Inl e
              | Inr d' \<Rightarrow>
                  (let payload = \<lparr>jwt_userId = user_id newUser, jwt_email = email newUser,
                                  jwt_iat = None, jwt_exp = None\<rparr>;
                       token = jwt_sign ev payload (secret ev);
                       safeUser = omit ''passwordHash'' (user_object newUser)
                   in Inr (\<lparr>code = 201, success = True, data = Some (AuthData token safeUser),
                            message = Some ''Account created successfully.'', errors = None\<rparr>,
                           d'))))"

definition login :: "env \<Rightarrow> LoginBody \<Rightarrow> db \<Rightarrow> response" where
  "login ev body d =
     (case findUserByEmail ev d (lb_email body) of
        None \<Rightarrow> invalid_credentials
      | Some user \<Rightarrow>
          if \<not> bcrypt_compare ev (lb_password body) (passwordHash user) then invalid_credentials
          else
            (let payload = \<lparr>jwt_userId = user_id user, jwt_email = email user,
                            jwt_iat = None, jwt_exp = None\<rparr>;
                 token = jwt_sign ev payload (secret ev);
                 safeUser = omit ''passwordHash'' (user_object user)
             in \<lparr>code = 200, success = True, data = Some (AuthData token safeUser),
                 message = Some ''Login successful.'', errors = None\<rparr>))"

definition getMe :: "string \<Rightarrow> db \<Rightarrow> response" where
  "getMe uid d =
     (case findUserById d uid of
        None \<Rightarrow> \<lparr>code = 404, success = False, data = None,
                  message = Some ''User not found.'', errors = None\<rparr>
      | Some user \<Rightarrow>
          \<lparr>code = 200, success = True,
           data = Some (UserData (omit ''passwordHash'' (user_object user))),
           message = None, errors = None\<rparr>)"

section \<open>The authorization gate (middleware/auth.ts)\<close>

text \<open>
  The middleware either sends a response and returns, or attaches the decoded payload to
  the request and calls \<open>next()\<close>. A header that starts with \<open>Bearer\<close> and a space
  always has a second piece; were it missing, \<open>jwt.verify\<close> would throw on \<open>undefined\<close>
  and the catch block would answer as for any other verification error.
\<close>

datatype auth_result = Rejected response | Next JwtPayload

definition unauthorized :: "string \<Rightarrow> response" where
  "unauthorized msg =
     \<lparr>code = 401, success = False, data = None, message = Some msg, errors = None\<rparr>"

definition authenticate :: "env \<Rightarrow> string option \<Rightarrow> db \<Rightarrow> auth_result" where
  "authenticate ev authHeader d =
     (case authHeader of
        None \<Rightarrow> Rejected (unauthorized ''Access denied. No token provided.'')
      | Some h \<Rightarrow>
          if h = [] \<or> \<not> startsWith h ''Bearer ''
          then Rejected (unauthorized ''Access denied. No token provided.'')
          else
            (case index (split CHR '' '' h) 1 of
               None \<Rightarrow> Rejected (unauthorized ''Invalid token.'')
             | Some token \<Rightarrow>
                 (case jwt_verify ev token (secret ev) of
                    Inl err \<Rightarrow>
                      Rejected (unauthorized (if err = TokenExpiredError
                                              then ''Token has expired.'' else ''Invalid token.''))
                  | Inr decoded \<Rightarrow>
                      (case findUserById d (jwt_userId decoded) of
                         None \<Rightarrow> Rejected (unauthorized ''User account no longer exists.'')
                       | Some user \<Rightarrow> Next decoded))))"

section \<open>Validation and the routes (routes/auth.ts, routes/tasks.ts, middleware/validate.ts)\<close>

text \<open>
  \<open>new Date(new Date().setHours(0, 0, 0, 0))\<close>: midnight of the current day in the local
  time of the server, as milliseconds since the epoch (the offset is taken as constant
  over the day).
\<close>

definition start_of_local_day :: "env \<Rightarrow> int" where
  "start_of_local_day ev =
     ((now ev + tz_offset ev) div 86400000) * 86400000 - tz_offset ev"

text \<open>
  A validation chain gives the messages of the validators that fail, in order.
  \<open>optional()\<close> skips a missing field, \<open>optional({ nullable: true })\<close> a \<open>null\<close> one
  too; a comparison with an invalid date is false.
\<close>

definition title_required :: "env \<Rightarrow> TaskBody \<Rightarrow> string list" where
  "title_required ev body =
     (if trim ev (case tb_title body of None \<Rightarrow> [] | Some s \<Rightarrow> s) = []
      then [''Task title is required.''] else [])"

definition title_optional :: "env \<Rightarrow> TaskBody \<Rightarrow> string list" where
  "title_optional ev body =
     (case tb_title body of
        None \<Rightarrow> []
      | Some s \<Rightarrow> if trim ev s = [] then [''Title cannot be empty.''] else [])"

definition isIn :: "string list \<Rightarrow> string \<Rightarrow> string option \<Rightarrow> string list" where
  "isIn allowed msg v =
     (case v of None \<Rightarrow> [] | Some s \<Rightarrow> if s \<in> set allowed then [] else [msg])"

definition dueDate_chain :: "env \<Rightarrow> nullable \<Rightarrow> string list" where
  "dueDate_chain ev v =
     (case v of
        Undefined \<Rightarrow> []
      | Null \<Rightarrow> []
      | Value s \<Rightarrow>
          (if isISO8601 ev s then [] else [''Due date must be a valid ISO 8601 date.'']) @
          (if s \<noteq> [] \<and>
              (case date_time ev s of None \<Rightarrow> False | Some t \<Rightarrow> t < start_of_local_day ev)
           then [''Due date cannot be in the past.''] else []))"

definition validate :: "string list \<Rightarrow> response option" where
  "validate errs =
     (if errs \<noteq> []
      then Some \<lparr>code = 422, success = False, data = None,
                 message = Some ''Validation failed.'', errors = Some errs\<rparr>
      else None)"

definition trimmed_title :: "env \<Rightarrow> TaskBody \<Rightarrow> TaskBody" where
  "trimmed_title ev body = body\<lparr>tb_title := map_option (trim ev) (tb_title body)\<rparr>"

definition post_task :: "env \<Rightarrow> string option \<Rightarrow> TaskBody \<Rightarrow> db \<Rightarrow> response \<times> db" where
  "post_task ev authHeader body d =
     (case authenticate ev authHeader d of
        Rejected r \<Rightarrow> (r, d)
      | Next user \<Rightarrow>
          (case validate
                  (title_required ev body @
                   isIn [''todo'', ''in-progress'', ''done'']
                     ''Status must be todo, in-progress, or done.'' (tb_status body) @
                   isIn [''low'', ''medium'', ''high'']
                     ''Priority must be low, medium, or high.'' (tb_priority body) @
                   dueDate_chain ev (tb_dueDate body)) of
             Some r \<Rightarrow> (r, d)
           | None \<Rightarrow> createTask ev (jwt_userId user) (trimmed_title ev body) d))"

definition patch_task ::
  "env \<Rightarrow> string option \<Rightarrow> string \<Rightarrow> TaskBody \<Rightarrow> db \<Rightarrow> response \<times> db" where
  "patch_task ev authHeader tid body d =
     (case authenticate ev authHeader d of
        Rejected r \<Rightarrow> (r, d)
      | Next user \<Rightarrow>
          (case validate
                  (title_optional ev body @
                   isIn [''todo'', ''in-progress'', ''done'']
                     ''Status must be todo, in-progress, or done.'' (tb_status body) @
                   isIn [''low'', ''medium'', ''high'']
                     ''Priority must be low, medium, or high.'' (tb_priority body) @
                   dueDate_chain ev (tb_dueDate body)) of
             Some r \<Rightarrow> (r, d)
           | None \<Rightarrow> updateTask ev (jwt_userId user) tid (trimmed_title ev body) d))"

text \<open>
  The register route: the address must pass \<open>isEmail()\<close>, the password
  \<open>isLength({ min: 8 })\<close>, and the name is trimmed and must not be empty; then
  \<open>validate\<close>, then the handler.
\<close>

definition post_register :: "env \<Rightarrow> RegisterBody \<Rightarrow> db \<Rightarrow> failure + response \<times> db" where
  "post_register ev body d =
     (case validate
             ((if isEmail ev (rb_email body) then []
               else [''A valid email address is required.'']) @
              (if isLength ev 8 (rb_password body) then []
               else [''Password must be at least 8 characters.'']) @
              (if trim ev (rb_name body) \<noteq> [] then [] else [''Full name is required.''])) of
        Some r \<Rightarrow> Inr (r, d)
      | None \<Rightarrow> register ev (body\<lparr>rb_name := trim ev (rb_name body)\<rparr>) d)"

section \<open>Sample deployments for the examples\<close>

text \<open>
  Stand-ins for what is taken from outside, right on the text of the examples.
  \<open>sample_toLowerCase\<close> lowercases the letters \<open>A\<close> to \<open>Z\<close>; the examples hold no other
  cased letter. \<open>sample_trim\<close> strips the ASCII white space and the character EM SPACE
  (U+2003, in UTF-8 the bytes E2 80 83), one of the white space characters that \<open>trim\<close>
  strips; the examples hold no other white space.
\<close>

definition lower_char :: "char \<Rightarrow> char" where
  "lower_char c =
     (let n = (of_char c :: nat) in if 65 \<le> n \<and> n \<le> 90 then char_of (n + 32) else c)"

definition sample_toLowerCase :: "string \<Rightarrow> string" where
  "sample_toLowerCase s = map lower_char s"

definition is_space :: "char \<Rightarrow> bool" where
  "is_space c = (let n = (of_char c :: nat) in n = 32 \<or> (9 \<le> n \<and> n \<le> 13))"

definition em_space :: string where
  "em_space = [char_of (226 :: nat), char_of (128 :: nat), char_of (131 :: nat)]"

fun strip :: "string \<Rightarrow> string \<Rightarrow> string" where
  "strip mk [] = []"
| "strip mk (c # cs) =
     (if is_space c then strip mk cs
      else if take 3 (c # cs) = mk then strip mk (drop 2 cs)
      else c # cs)"

definition sample_trim :: "string \<Rightarrow> string" where
  "sample_trim s = rev (strip (rev em_space) (rev (strip em_space s)))"

text \<open>
  The time value of \<open>new Date(s)\<close> for a date-only string \<open>YYYY-MM-DD\<close>: such a string
  is read as midnight UTC of that calendar day. The day number is counted from
  1970-01-01 in the proleptic Gregorian calendar. Strings of any other shape are outside
  the examples and are given no time value here.
\<close>

definition digit :: "char \<Rightarrow> int option" where
  "digit c = (let n = (of_char c :: nat) in if 48 \<le> n \<and> n \<le> 57 then Some (int n - 48) else None)"

fun digits :: "int \<Rightarrow> string \<Rightarrow> int option" where
  "digits acc [] = Some acc"
| "digits acc (c # cs) = (case digit c of None \<Rightarrow> None | Some k \<Rightarrow> digits (10 * acc + k) cs)"

definition days_from_civil :: "int \<Rightarrow> int \<Rightarrow> int \<Rightarrow> int" where
  "days_from_civil y m dd =
     (let y' = (if m \<le> 2 then y - 1 else y);
          era = y' div 400;
          yoe = y' - era * 400;
          doy = (153 * (if m > 2 then m - 3 else m + 9) + 2) div 5 + dd - 1;
          doe = yoe * 365 + yoe div 4 - yoe div 100 + doy
      in era * 146097 + doe - 719468)"

definition days_in_month :: "int \<Rightarrow> int \<Rightarrow> int" where
  "days_in_month y m =
     (if m = 2 then (if y mod 4 = 0 \<and> (y mod 100 \<noteq> 0 \<or> y mod 400 = 0) then 29 else 28)
      else if m = 4 \<or> m = 6 \<or> m = 9 \<or> m = 11 then 30 else 31)"

definition date_only_time :: "string \<Rightarrow> int option" where
  "date_only_time s =
     (if length s = 10 \<and> s ! 4 = CHR ''-'' \<and> s ! 7 = CHR ''-''
      then (case (digits 0 (take 4 s), digits 0 (take 2 (drop 5 s)), digits 0 (drop 8 s)) of
              (Some y, Some m, Some dd) \<Rightarrow>
                if 1 \<le> m \<and> m \<le> 12 \<and> 1 \<le> dd \<and> dd \<le> days_in_month y m
                then Some (days_from_civil y m dd * 86400000) else None
            | _ \<Rightarrow> None)
      else None)"

text \<open>
  \<open>toISOString()\<close> on a time value: the date and the time of day in UTC, as
  \<open>YYYY-MM-DDTHH:mm:ss.sssZ\<close> (for the years 0000 to 9999).
\<close>

definition civil_from_days :: "int \<Rightarrow> int \<times> int \<times> int" where
  "civil_from_days z =
     (let z' = z + 719468;
          era = z' div 146097;
          doe = z' - era * 146097;
          yoe = (doe - doe div 1460 + doe div 36524 - doe div 146096) div 365;
          doy = doe - (365 * yoe + yoe div 4 - yoe div 100);
          mp = (5 * doy + 2) div 153;
          dd = doy - (153 * mp + 2) div 5 + 1;
          m = (if mp < 10 then mp + 3 else mp - 9);
          y = yoe + era * 400 + (if m \<le> 2 then 1 else 0)
      in (y, m, dd))"

definition digit_char :: "int \<Rightarrow> char" where
  "digit_char n = char_of (48 + n mod 10)"

definition pad2 :: "int \<Rightarrow> string" where
  "pad2 n = [digit_char (n div 10), digit_char n]"

definition pad3 :: "int \<Rightarrow> string" where
  "pad3 n = digit_char (n div 100) # pad2 n"

definition pad4 :: "int \<Rightarrow> string" where
  "pad4 n = digit_char (n div 1000) # pad3 n"

definition iso_string :: "int \<Rightarrow> string" where
  "iso_string m =
     (case civil_from_days (m div 86400000) of
        (y, mo, dd) \<Rightarrow>
          (let r = m mod 86400000
           in pad4 y @ ''-'' @ pad2 mo @ ''-'' @ pad2 dd @ ''T'' @
              pad2 (r div 3600000) @ '':'' @ pad2 (r div 60000 mod 60) @ '':'' @
              pad2 (r div 1000 mod 60) @ ''.'' @ pad3 (r mod 1000) @ ''Z''))"

text \<open>
  The driver with its default settings: a \<open>DATE\<close> column comes back as the \<open>Date\<close>
  object of midnight of that day in the local time of the server. The first argument is
  the offset of the server.
\<close>

definition local_midnight_column :: "int \<Rightarrow> string \<Rightarrow> due" where
  "local_midnight_column tz s =
     (case date_only_time s of Some u \<Rightarrow> DateObject (u - tz) | None \<Rightarrow> DateString s)"

text \<open>
  Validators for the examples: an address has an \<open>@\<close> and no ASCII white space (the
  library's pattern for the local part admits the characters from U+00A1 to U+D7FF, EM
  SPACE among them); a length is counted on ASCII text.
\<close>

definition sample_isEmail :: "string \<Rightarrow> bool" where
  "sample_isEmail s = (CHR ''@'' \<in> set s \<and> list_all (\<lambda>c. \<not> is_space c) s)"

definition sample_isLength :: "nat \<Rightarrow> string \<Rightarrow> bool" where
  "sample_isLength n s = (n \<le> length s)"

text \<open>
  A token service for the examples: three tokens, one signed and current for user
  \<open>u1\<close>, one signed and current for user \<open>u9\<close>, one signed and past its expiry;
  everything else fails verification.
\<close>

definition sample_verify :: "string \<Rightarrow> string \<Rightarrow> jwt_error + JwtPayload" where
  "sample_verify token key =
     (if token = ''tok-u1''
      then Inr \<lparr>jwt_userId = ''u1'', jwt_email = ''alice@x.com'', jwt_iat = Some 0, jwt_exp = Some 10\<rparr>
      else if token = ''tok-u9''
      then Inr \<lparr>jwt_userId = ''u9'', jwt_email = ''zoe@x.com'', jwt_iat = Some 0, jwt_exp = Some 10\<rparr>
      else if token = ''tok-old'' then Inl TokenExpiredError
      else Inl JsonWebTokenError)"

text \<open>
  A server five hours behind UTC, at 2024-06-15 15:00 UTC (10:00 local time).
\<close>

definition sample_env :: env where
  "sample_env =
     \<lparr>uuid = ''id-1'', now = 1718463600000, db_now = 1718463600005, tz_offset = - 18000000,
      toLowerCase = sample_toLowerCase,
      trim = sample_trim,
      toISOString = iso_string,
      date_time = date_only_time,
      date_column = local_midnight_column (- 18000000),
      bcrypt_hash = (\<lambda>p. ''hash:'' @ p),
      bcrypt_compare = (\<lambda>p h. h = ''hash:'' @ p),
      jwt_sign = (\<lambda>p key. ''tok-'' @ jwt_userId p),
      jwt_verify = sample_verify,
      secret = ''s3cret'',
      isEmail = sample_isEmail,
      isLength = sample_isLength,
      isISO8601 = (\<lambda>s. date_only_time s \<noteq> None)\<rparr>"

definition alice :: User where
  "alice = \<lparr>user_id = ''u1'', email = ''alice@x.com'', name = ''Alice'',
            passwordHash = ''hash:password123'', user_createdAt = 1000\<rparr>"

definition bob :: User where
  "bob = \<lparr>user_id = ''u2'', email = ''bob@x.com'', name = ''Bob'',
          passwordHash = ''hash:hunter2hunter2'', user_createdAt = 2000\<rparr>"

text \<open>The first task is due on 2024-06-20: midnight of that day five hours behind UTC.\<close>

definition task_a :: Task where
  "task_a = \<lparr>task_id = ''t1'', title = ''Buy milk'', description = ''two litres'',
             status = ''todo'', priority = ''medium'', dueDate = Some (DateObject 1718859600000),
             createdAt = 5000, updatedAt = 5000, userId = ''u1''\<rparr>"

definition task_b :: Task where
  "task_b = \<lparr>task_id = ''t2'', title = ''Plan trip'', description = ''book the Milky Way tour'',
             status = ''done'', priority = ''high'', dueDate = None,
             createdAt = 7000, updatedAt = 7000, userId = ''u2''\<rparr>"

definition task_c :: Task where
  "task_c = \<lparr>task_id = ''t3'', title = ''Write report'', description = '''',
             status = ''done'', priority = ''high'', dueDate = None,
             createdAt = 5000, updatedAt = 6000, userId = ''u1''\<rparr>"

definition sample_db :: db where
  "sample_db = \<lparr>users = [alice, bob], tasks = [task_a, task_b, task_c]\<rparr>"

text \<open>
  The same server five and a half hours ahead of UTC, with one task due on 2024-06-20:
  the driver hands its due date over as 2024-06-19 18:30 UTC, midnight of the 20th there.
\<close>

definition east_env :: env where
  "east_env = sample_env\<lparr>tz_offset := 19800000, date_column := local_midnight_column 19800000\<rparr>"

definition task_d :: Task where
  "task_d = \<lparr>task_id = ''t4'', title = ''File taxes'', description = ''forms'',
             status = ''todo'', priority = ''high'', dueDate = Some (DateObject 1718821800000),
             createdAt = 8000, updatedAt = 8000, userId = ''u1''\<rparr>"

definition east_db :: db where
  "east_db = \<lparr>users = [alice, bob], tasks = [task_d]\<rparr>"

text \<open>The body \<open>{status: "done"}\<close> of an update, and one that only renames the task.\<close>

definition done_body :: TaskBody where
  "done_body = \<lparr>tb_title = None, tb_description = None, tb_status = Some ''done'',
                 tb_priority = None, tb_dueDate = Undefined\<rparr>"

definition rename_body :: TaskBody where
  "rename_body = \<lparr>tb_title = Some ''File the taxes'', tb_description = None, tb_status = None,
                   tb_priority = None, tb_dueDate = Undefined\<rparr>"

text \<open>Two registrations: a new address, and the same address after an EM SPACE.\<close>

definition reg1 :: RegisterBody where
  "reg1 = \<lparr>rb_email = ''carol@x.com'', rb_password = ''correct horse'', rb_name = ''Carol''\<rparr>"

definition reg3 :: RegisterBody where
  "reg3 = \<lparr>rb_email = em_space @ ''carol@x.com'', rb_password = ''battery staple'',
            rb_name = ''Caro''\<rparr>"

definition carol :: User where
  "carol = \<lparr>user_id = ''id-1'', email = ''carol@x.com'', name = ''Carol'',
            passwordHash = ''hash:correct horse'', user_createdAt = 1718463600005\<rparr>"

definition created :: response where
  "created =
     \<lparr>code = 201, success = True,
      data = Some (AuthData ''tok-id-1''
               [(''id'', JString ''id-1''), (''email'', JString ''carol@x.com''),
                (''name'', JString ''Carol''), (''createdAt'', JTime 1718463600000)]),
      message = Some ''Account created successfully.'', errors = None\<rparr>"

text \<open>A task due on the local calendar day of the server behind UTC.\<close>

definition milk_today :: TaskBody where
  "milk_today = \<lparr>tb_title = Some ''Buy milk'', tb_description = None, tb_status = None,
                  tb_priority = None, tb_dueDate = Value ''2024-06-15''\<rparr>"

lemmas sample_defs = sample_db_def sample_env_def sample_verify_def alice_def bob_def
  task_a_def task_b_def task_c_def done_body_def

lemmas lower_eval = sample_toLowerCase_def lower_char_def char_of_def bit_iff_odd

lemmas trim_eval = sample_trim_def is_space_def em_space_def char_of_def bit_iff_odd

section \<open>Facts about strings\<close>

lemma split_not_Nil: "split sep s \<noteq> []"
  by (induction s) (auto split: list.splits)

lemma hd_split: "hd (split sep s) = takeWhile (\<lambda>c. c \<noteq> sep) s"
  using split_not_Nil [of sep]
  by (induction s) (auto split: list.splits)

lemma startsWith_Bearer: "startsWith h ''Bearer '' \<longleftrightarrow> (\<exists>rest. h = ''Bearer '' @ rest)"
proof
  assume "startsWith h ''Bearer ''"
  then have "take (length ''Bearer '') h = ''Bearer ''" unfolding startsWith_def .
  then have "h = ''Bearer '' @ drop (length ''Bearer '') h" by (metis append_take_drop_id)
  then show "\<exists>rest. h = ''Bearer '' @ rest" ..
next
  assume "\<exists>rest. h = ''Bearer '' @ rest"
  then show "startsWith h ''Bearer ''" by (auto simp: startsWith_def)
qed

text \<open>The token the middleware reads: what stands between the first and the second space.\<close>

lemma bearer_token:
  assumes "startsWith h ''Bearer ''"
  shows "index (split CHR '' '' h) 1 = Some (takeWhile (\<lambda>c. c \<noteq> CHR '' '') (drop 7 h))"
proof -
  from assms obtain rest where h: "h = ''Bearer '' @ rest"
    by (auto simp: startsWith_Bearer)
  have "split CHR '' '' rest \<noteq> []" by (rule split_not_Nil)
  then obtain w ws where w: "split CHR '' '' rest = w # ws"
    by (cases "split CHR '' '' rest") auto
  with hd_split [of "CHR '' ''" rest] have "w = takeWhile (\<lambda>c. c \<noteq> CHR '' '') rest" by simp
  with w h show ?thesis by (simp add: index_def)
qed

lemma takeWhile_idem: "takeWhile P (takeWhile P xs) = takeWhile P xs"
  unfolding takeWhile_eq_all_conv by (auto dest: set_takeWhileD)

lemma str_includes_sublist: "str_includes s q \<longleftrightarrow> sublist q s"
proof (induction s)
  case Nil
  show ?case by simp
next
  case (Cons c cs)
  have "take (length q) (c # cs) = q \<longleftrightarrow> prefix q (c # cs)"
    by (metis append_take_drop_id prefix_def append_eq_conv_conj prefixE)
  then show ?case
    using Cons by (cases q) (auto simp: sublist_Cons_right)
qed

section \<open>Facts about the sort of the task list\<close>

lemma insert_by_createdAt:
  "insert_by (\<lambda>a b. createdAt b - createdAt a) x ys = insort_key (\<lambda>t. - createdAt t) x ys"
  by (induction ys) simp_all

lemma sort_by_createdAt:
  "sort_by (\<lambda>a b. createdAt b - createdAt a) xs = sort_key (\<lambda>t. - createdAt t) xs"
  by (induction xs) (simp_all add: sort_by_def insert_by_createdAt)

lemma sorted_desc_sort_by:
  "sorted_wrt (\<lambda>a b. createdAt b \<le> createdAt a) (sort_by (\<lambda>a b. createdAt b - createdAt a) xs)"
proof -
  have "sorted (map (\<lambda>t. - createdAt t) (sort_key (\<lambda>t. - createdAt t) xs))"
    by (rule sorted_sort_key)
  then show ?thesis
    by (simp add: sort_by_createdAt sorted_map)
qed

lemma mset_sort_by: "mset (sort_by (\<lambda>a b. createdAt b - createdAt a) xs) = mset xs"
  by (simp add: sort_by_createdAt)

lemma stable_sort_by:
  "filter (\<lambda>t. createdAt t = k) (sort_by (\<lambda>a b. createdAt b - createdAt a) xs) =
   filter (\<lambda>t. createdAt t = k) xs"
proof -
  have "filter (\<lambda>t. - createdAt t = - k) (sort_key (\<lambda>t. - createdAt t) xs) =
        filter (\<lambda>t. - createdAt t = - k) xs"
    by (rule sort_key_stable)
  then show ?thesis by (simp add: sort_by_createdAt)
qed

section \<open>Facts about the repository\<close>

lemma find_map_changed:
  assumes "find P xs = Some t" and "\<And>r. P (f r) = P r"
  shows "find P (map f xs) = Some (f t)"
  using assms by (induction xs) (auto split: if_splits)

lemma find_map_unchanged:
  assumes "\<And>r. Q (f r) = Q r" and "\<And>r. Q r \<Longrightarrow> f r = r"
  shows "find Q (map f xs) = find Q xs"
  using assms by (induction xs) auto

lemma findTaskById_id: "findTaskById d tid = Some t \<Longrightarrow> task_id t = tid"
  by (auto simp: findTaskById_def find_Some_iff)

text \<open>
  Saving over an existing row: the row found under the id afterwards is the saved task
  with the due date as the driver reads the text written, the database time as
  \<open>updated_at\<close> and the old \<open>created_at\<close>; the rows under other ids and the users are
  as before.
\<close>

lemma saveTask_existing:
  assumes "findTaskById d (task_id task) = Some t"
  shows "findTaskById (saveTask ev d task) (task_id task) =
           Some (task\<lparr>dueDate := map_option (date_column ev) (formattedDueDate ev (dueDate task)),
                      updatedAt := db_now ev, createdAt := createdAt t\<rparr>)"
    and "j \<noteq> task_id task \<Longrightarrow> findTaskById (saveTask ev d task) j = findTaskById d j"
    and "users (saveTask ev d task) = users d"
proof -
  let ?row = "task\<lparr>dueDate := map_option (date_column ev) (formattedDueDate ev (dueDate task)),
                   updatedAt := db_now ev\<rparr>"
  let ?f = "\<lambda>r. if task_id r = task_id task then ?row\<lparr>createdAt := createdAt r\<rparr> else r"
  have s: "saveTask ev d task = d\<lparr>tasks := map ?f (tasks d)\<rparr>"
    using assms by (simp add: saveTask_def)
  have "find (\<lambda>r. task_id r = task_id task) (map ?f (tasks d)) = Some (?f t)"
    using assms unfolding findTaskById_def by (rule find_map_changed) simp
  moreover have "task_id t = task_id task"
    using assms by (rule findTaskById_id)
  ultimately show "findTaskById (saveTask ev d task) (task_id task) =
           Some (task\<lparr>dueDate := map_option (date_column ev) (formattedDueDate ev (dueDate task)),
                      updatedAt := db_now ev, createdAt := createdAt t\<rparr>)"
    by (simp add: s findTaskById_def)
  show "findTaskById (saveTask ev d task) j = findTaskById d j" if "j \<noteq> task_id task"
  proof -
    have "find (\<lambda>r. task_id r = j) (map ?f (tasks d)) = find (\<lambda>r. task_id r = j) (tasks d)"
      using that by (intro find_map_unchanged) auto
    then show ?thesis by (simp add: s findTaskById_def)
  qed
  show "users (saveTask ev d task) = users d" by (simp add: s)
qed

text \<open>What the update handler does once the task is found and owned.\<close>

lemma updateTask_owned:
  assumes "findTaskById d tid = Some t" and "userId t = uid"
  shows "updateTask ev uid tid body d =
      (\<lparr>code = 200, success = True,
        data = Some (TaskData (t\<lparr>
          title := (case tb_title body of Some s \<Rightarrow> trim ev s | None \<Rightarrow> title t),
          description :=
            (case tb_description body of Some s \<Rightarrow> trim ev s | None \<Rightarrow> description t),
          status := (case tb_status body of Some s \<Rightarrow> s | None \<Rightarrow> status t),
          priority := (case tb_priority body of Some s \<Rightarrow> s | None \<Rightarrow> priority t),
          dueDate := (case tb_dueDate body of
                        Undefined \<Rightarrow> dueDate t | Null \<Rightarrow> None | Value s \<Rightarrow> Some (DateString s)),
          updatedAt := now ev\<rparr>)),
        message = Some ''Task updated successfully.'', errors = None\<rparr>,
       saveTask ev d (t\<lparr>
          title := (case tb_title body of Some s \<Rightarrow> trim ev s | None \<Rightarrow> title t),
          description :=
            (case tb_description body of Some s \<Rightarrow> trim ev s | None \<Rightarrow> description t),
          status := (case tb_status body of Some s \<Rightarrow> s | None \<Rightarrow> status t),
          priority := (case tb_priority body of Some s \<Rightarrow> s | None \<Rightarrow> priority t),
          dueDate := (case tb_dueDate body of
                        Undefined \<Rightarrow> dueDate t | Null \<Rightarrow> None | Value s \<Rightarrow> Some (DateString s)),
          updatedAt := now ev\<rparr>))"
  using assms by (simp add: updateTask_def Let_def)

section \<open>Facts about the day boundary\<close>

lemma start_of_local_day_behind_utc:
  assumes "tz_offset ev < 0"
  shows "((now ev + tz_offset ev) div 86400000) * 86400000 < start_of_local_day ev"
  using assms by (simp add: start_of_local_day_def)

text \<open>
  A date-only string of an earlier local day is before the boundary for every offset of
  less than a day; one of the current or a later local day is not before it on a server
  at or ahead of UTC.
\<close>

lemma earlier_day_before_boundary:
  assumes "tz_offset ev < 86400000" and "k < (now ev + tz_offset ev) div 86400000"
  shows "k * 86400000 < start_of_local_day ev"
  using assms by (simp add: start_of_local_day_def)

lemma current_day_not_before_boundary:
  assumes "0 \<le> tz_offset ev" and "(now ev + tz_offset ev) div 86400000 \<le> k"
  shows "\<not> k * 86400000 < start_of_local_day ev"
  using assms by (simp add: start_of_local_day_def)

lemma earlier_day_rejected:
  assumes "tz_offset ev < 86400000" and "s \<noteq> []"
    and "date_time ev s = Some (k * 86400000)"
    and "k < (now ev + tz_offset ev) div 86400000"
  shows "''Due date cannot be in the past.'' \<in> set (dueDate_chain ev (Value s))"
  using assms(2,3) earlier_day_before_boundary [OF assms(1,4)]
  by (simp add: dueDate_chain_def)

lemma current_day_accepted_ahead_of_utc:
  assumes "0 \<le> tz_offset ev" and "isISO8601 ev s"
    and "date_time ev s = Some (k * 86400000)"
    and "(now ev + tz_offset ev) div 86400000 \<le> k"
  shows "dueDate_chain ev (Value s) = []"
  using assms(2,3) current_day_not_before_boundary [OF assms(1,4)]
  by (simp add: dueDate_chain_def)

lemma past_message_today:
  assumes "tz_offset ev < 0" and "s \<noteq> []"
    and "date_time ev s = Some (((now ev + tz_offset ev) div 86400000) * 86400000)"
  shows "''Due date cannot be in the past.'' \<in> set (dueDate_chain ev (Value s))"
  using assms start_of_local_day_behind_utc [OF assms(1)]
  by (simp add: dueDate_chain_def)

lemma date_only_2024_06_15: "date_only_time ''2024-06-15'' = Some 1718409600000"
  by (simp add: date_only_time_def digit_def days_from_civil_def days_in_month_def)

text \<open>
  Local midnight of day \<open>k\<close> on a server ahead of UTC lies in the UTC day \<open>k - 1\<close>; at
  or behind UTC (by less than a day) it lies in the UTC day \<open>k\<close>.
\<close>

lemma local_midnight_utc_day_ahead:
  assumes "0 < tz" and "tz \<le> 86400000"
  shows "(k * 86400000 - tz) div 86400000 = k - (1 :: int)"
proof -
  have "k * 86400000 - tz = (86400000 - tz) + (k - 1) * 86400000" by (simp add: algebra_simps)
  moreover have "((86400000 - tz) + (k - 1) * 86400000) div 86400000 = k - 1"
    using assms by simp
  ultimately show ?thesis by simp
qed

lemma local_midnight_utc_day_behind:
  assumes "tz \<le> 0" and "- 86400000 < tz"
  shows "(k * 86400000 - tz) div 86400000 = (k :: int)"
proof -
  have "k * 86400000 - tz = (- tz) + k * 86400000" by simp
  moreover have "((- tz) + k * 86400000) div 86400000 = k"
    using assms by simp
  ultimately show ?thesis by simp
qed

section \<open>Task access control\<close>

text \<open>
  Claim C1. For GetTask, UpdateTask and DeleteTask and every requester: when no task has
  the given id, or the task found belongs to somebody else, the answer is the same
  404 response \<open>Task not found.\<close> in both cases. It is not a 403, it carries no data,
  and the store is left as it was.
\<close>

theorem task_access_control:
  assumes "findTaskById d tid = None \<or> (\<exists>t. findTaskById d tid = Some t \<and> userId t \<noteq> uid)"
  shows "getTaskById uid tid d = not_found \<and>
         updateTask ev uid tid body d = (not_found, d) \<and>
         deleteTask uid tid d = (not_found, d) \<and>
         code not_found = 404 \<and> code not_found \<noteq> 403 \<and>
         data not_found = None \<and> message not_found = Some ''Task not found.''"
  using assms
  by (auto simp: getTaskById_def updateTask_def deleteTask_def not_found_def)

theorem task_access_control_witness:
  "findTaskById sample_db ''t2'' = Some task_b \<and> userId task_b \<noteq> ''u1'' \<and>
   findTaskById sample_db ''t7'' = None \<and>
   getTaskById ''u1'' ''t2'' sample_db = getTaskById ''u1'' ''t7'' sample_db \<and>
   updateTask sample_env ''u1'' ''t2'' done_body sample_db = (not_found, sample_db) \<and>
   deleteTask ''u1'' ''t7'' sample_db = (not_found, sample_db)"
proof -
  have f2: "findTaskById sample_db ''t2'' = Some task_b"
    by (simp add: findTaskById_def sample_defs)
  have o2: "userId task_b \<noteq> ''u1''"
    by (simp add: task_b_def)
  have f7: "findTaskById sample_db ''t7'' = None"
    by (simp add: findTaskById_def sample_defs)
  from f2 o2 have h2: "findTaskById sample_db ''t2'' = None \<or>
      (\<exists>t. findTaskById sample_db ''t2'' = Some t \<and> userId t \<noteq> ''u1'')"
    by simp
  from f7 have h7: "findTaskById sample_db ''t7'' = None \<or>
      (\<exists>t. findTaskById sample_db ''t7'' = Some t \<and> userId t \<noteq> ''u1'')"
    by simp
  show ?thesis
    using task_access_control [OF h2, of sample_env done_body]
      task_access_control [OF h7, of sample_env done_body] f2 o2 f7
    by simp
qed

section \<open>Registration\<close>

lemma first_registration:
  "register sample_env reg1 sample_db =
     Inr (created, sample_db\<lparr>users := [alice, bob, carol]\<rparr>)"
  by (simp add: register_def findUserByEmail_def saveUser_def omit_def user_object_def
      reg1_def carol_def created_def lower_eval trim_eval sample_defs)

text \<open>What a successful registration leaves in the store.\<close>

lemma register_created:
  assumes "register ev b d0 = Inr (r, d1)" and "code r = 201"
  shows "d1 = d0\<lparr>users := users d0 @
           [\<lparr>user_id = uuid ev, email = trim ev (toLowerCase ev (rb_email b)),
             name = trim ev (rb_name b), passwordHash = bcrypt_hash ev (rb_password b),
             user_createdAt = db_now ev\<rparr>]\<rparr>"
  using assms
  by (auto simp: register_def saveUser_def conflict_def Let_def
      split: option.splits if_splits)

text \<open>
  After a successful registration, a registration under an address that is the same
  after lowercasing and trimming never creates a second user: the handler answers 409
  when its lookup, which lowercases and does not trim, finds a row, and otherwise the
  insert repeats the stored address and the database rejects it.
\<close>

lemma register_same_address_outcomes:
  assumes "register ev1 b1 d0 = Inr (r1, d1)" and "code r1 = 201"
    and "trim ev2 (toLowerCase ev2 (rb_email b2)) = trim ev1 (toLowerCase ev1 (rb_email b1))"
  shows "register ev2 b2 d1 =
           (if list_ex (\<lambda>u. toLowerCase ev2 (email u) = toLowerCase ev2 (rb_email b2)) (users d1)
            then Inr (conflict, d1) else Inl DuplicateEntry)"
proof -
  note d1 = register_created [OF assms(1,2)]
  show ?thesis
  proof (cases "findUserByEmail ev2 d1 (rb_email b2)")
    case None
    then have "\<not> list_ex (\<lambda>u. toLowerCase ev2 (email u) = toLowerCase ev2 (rb_email b2)) (users d1)"
      by (simp add: findUserByEmail_def find_None_iff list_ex_iff)
    moreover have "register ev2 b2 d1 = Inl DuplicateEntry"
      using None assms(3) by (simp add: register_def saveUser_def d1)
    ultimately show ?thesis by simp
  next
    case (Some x)
    then have "list_ex (\<lambda>u. toLowerCase ev2 (email u) = toLowerCase ev2 (rb_email b2)) (users d1)"
      by (auto simp: findUserByEmail_def find_Some_iff list_ex_iff)
    moreover have "register ev2 b2 d1 = Inr (conflict, d1)"
      using Some by (simp add: register_def)
    ultimately show ?thesis by simp
  qed
qed

text \<open>
  Claim C2, where the code departs from it. After a successful registration, take a
  second registration whose address is the same after trimming and lowercasing, passes
  the validation of the route, and is not found by the lookup of the handler, which
  lowercases the address and does not trim it (an address with white space in front that
  the address validator lets through). The handler then inserts the trimmed address, the
  unique index rejects the insert, and the promise of the handler is rejected: the
  answer is not the 409 response, from the handler and from the route alike.
\<close>

theorem register_padded_duplicate_rejected_by_database:
  assumes "register ev1 b1 d0 = Inr (r1, d1)" and "code r1 = 201"
    and "trim ev2 (toLowerCase ev2 (rb_email b2)) = trim ev1 (toLowerCase ev1 (rb_email b1))"
    and "\<forall>u \<in> set (users d1). toLowerCase ev2 (email u) \<noteq> toLowerCase ev2 (rb_email b2)"
    and "isEmail ev2 (rb_email b2)" and "isLength ev2 8 (rb_password b2)"
    and "trim ev2 (rb_name b2) \<noteq> []"
  shows "register ev2 b2 d1 = Inl DuplicateEntry \<and> post_register ev2 b2 d1 = Inl DuplicateEntry"
proof -
  let ?b = "b2\<lparr>rb_name := trim ev2 (rb_name b2)\<rparr>"
  have miss: "\<not> list_ex (\<lambda>u. toLowerCase ev2 (email u) = toLowerCase ev2 (rb_email b2)) (users d1)"
    using assms(4) by (simp add: list_ex_iff)
  have "register ev2 b2 d1 = Inl DuplicateEntry"
    using register_same_address_outcomes [OF assms(1,2,3)] miss by simp
  moreover have "register ev2 ?b d1 = Inl DuplicateEntry"
    using register_same_address_outcomes [OF assms(1,2), of ev2 ?b] assms(3) miss by simp
  then have "post_register ev2 b2 d1 = Inl DuplicateEntry"
    using assms(5,6,7) by (simp add: post_register_def validate_def)
  ultimately show ?thesis by simp
qed

theorem register_padded_duplicate_rejected_by_database_witness:
  "register sample_env reg1 sample_db =
     Inr (created, sample_db\<lparr>users := [alice, bob, carol]\<rparr>) \<and>
   trim sample_env (toLowerCase sample_env (rb_email reg3)) =
     trim sample_env (toLowerCase sample_env (rb_email reg1)) \<and>
   isEmail sample_env (rb_email reg3) \<and>
   register (sample_env\<lparr>uuid := ''id-2''\<rparr>) reg3 (sample_db\<lparr>users := [alice, bob, carol]\<rparr>) =
     Inl DuplicateEntry \<and>
   post_register (sample_env\<lparr>uuid := ''id-2''\<rparr>) reg3 (sample_db\<lparr>users := [alice, bob, carol]\<rparr>) =
     Inl DuplicateEntry"
proof -
  let ?ev = "sample_env\<lparr>uuid := ''id-2''\<rparr>"
  let ?d1 = "sample_db\<lparr>users := [alice, bob, carol]\<rparr>"
  have c: "code created = 201" by (simp add: created_def)
  have n: "trim sample_env (toLowerCase sample_env (rb_email reg3)) =
      trim sample_env (toLowerCase sample_env (rb_email reg1))"
    by (simp add: reg1_def reg3_def sample_env_def lower_eval trim_eval)
  then have n': "trim ?ev (toLowerCase ?ev (rb_email reg3)) =
      trim sample_env (toLowerCase sample_env (rb_email reg1))"
    by simp
  have m: "\<forall>u \<in> set (users ?d1). toLowerCase ?ev (email u) \<noteq> toLowerCase ?ev (rb_email reg3)"
    by (simp add: reg3_def carol_def sample_defs lower_eval em_space_def)
  have e: "isEmail sample_env (rb_email reg3)"
    by (simp add: reg3_def sample_env_def sample_isEmail_def is_space_def em_space_def
        char_of_def bit_iff_odd)
  then have e': "isEmail ?ev (rb_email reg3)" by simp
  have l: "isLength ?ev 8 (rb_password reg3)"
    by (simp add: reg3_def sample_env_def sample_isLength_def)
  have nm: "trim ?ev (rb_name reg3) \<noteq> []"
    by (simp add: reg3_def sample_env_def trim_eval)
  from register_padded_duplicate_rejected_by_database
    [OF first_registration c n' m e' l nm] first_registration n e
  show ?thesis by simp
qed

section \<open>User objects in responses\<close>

text \<open>
  Claim C3. Whatever the inputs and the stored users, a user object returned by
  Register, Login or GetProfile has exactly the keys \<open>id\<close>, \<open>email\<close>, \<open>name\<close> and
  \<open>createdAt\<close>, so never the key \<open>passwordHash\<close>; and these responses carry a user object
  in no other place.
\<close>

theorem user_objects_omit_passwordHash:
  "(\<forall>r d' tok u. register ev rb d = Inr (r, d') \<and> data r = Some (AuthData tok u) \<longrightarrow>
      map fst u = [''id'', ''email'', ''name'', ''createdAt''] \<and> ''passwordHash'' \<notin> fst ` set u) \<and>
   (\<forall>tok u. data (login ev lb d) = Some (AuthData tok u) \<longrightarrow>
      map fst u = [''id'', ''email'', ''name'', ''createdAt''] \<and> ''passwordHash'' \<notin> fst ` set u) \<and>
   (\<forall>u. data (getMe uid d) = Some (UserData u) \<longrightarrow>
      map fst u = [''id'', ''email'', ''name'', ''createdAt''] \<and> ''passwordHash'' \<notin> fst ` set u) \<and>
   (\<forall>r d' u. register ev rb d = Inr (r, d') \<longrightarrow> data r \<noteq> Some (UserData u)) \<and>
   (\<forall>u. data (login ev lb d) \<noteq> Some (UserData u)) \<and>
   (\<forall>tok u. data (getMe uid d) \<noteq> Some (AuthData tok u))"
  by (auto simp: register_def login_def getMe_def conflict_def invalid_credentials_def
      omit_def user_object_def Let_def split: option.splits sum.splits if_splits)

theorem user_objects_omit_passwordHash_witness:
  "data (login sample_env \<lparr>lb_email = ''Alice@X.com'', lb_password = ''password123''\<rparr> sample_db) =
     Some (AuthData ''tok-u1'' [(''id'', JString ''u1''), (''email'', JString ''alice@x.com''),
                               (''name'', JString ''Alice''), (''createdAt'', JTime 1000)]) \<and>
   ''passwordHash'' \<notin> fst ` set [(''id'', JString ''u1''), (''email'', JString ''alice@x.com''),
                               (''name'', JString ''Alice''), (''createdAt'', JTime 1000)]"
proof -
  have l: "data (login sample_env \<lparr>lb_email = ''Alice@X.com'', lb_password = ''password123''\<rparr>
                   sample_db) =
     Some (AuthData ''tok-u1'' [(''id'', JString ''u1''), (''email'', JString ''alice@x.com''),
                               (''name'', JString ''Alice''), (''createdAt'', JTime 1000)])"
    by (simp add: login_def findUserByEmail_def omit_def user_object_def lower_eval sample_defs)
  with user_objects_omit_passwordHash [of sample_env reg1 sample_db
      "\<lparr>lb_email = ''Alice@X.com'', lb_password = ''password123''\<rparr>" "''u1''"]
  show ?thesis by blast
qed

section \<open>The authorization gate\<close>

text \<open>
  Claim C4. For a header that starts with \<open>Bearer\<close> and a space, with the token read from
  it: when verification throws the expiry error the request is rejected with
  \<open>Token has expired.\<close>; when it throws any other error, with \<open>Invalid token.\<close>; when it
  succeeds and the user id of the payload finds no user, with
  \<open>User account no longer exists.\<close>. Each rejection is a 401 response with that message,
  and the request does not go on to the handler.
\<close>

theorem authenticate_failure_modes:
  assumes "startsWith h ''Bearer ''"
    and "token = takeWhile (\<lambda>c. c \<noteq> CHR '' '') (drop 7 h)"
  shows "(jwt_verify ev token (secret ev) = Inl TokenExpiredError \<longrightarrow>
            authenticate ev (Some h) d = Rejected (unauthorized ''Token has expired.'')) \<and>
         (\<forall>e. jwt_verify ev token (secret ev) = Inl e \<and> e \<noteq> TokenExpiredError \<longrightarrow>
            authenticate ev (Some h) d = Rejected (unauthorized ''Invalid token.'')) \<and>
         (\<forall>p. jwt_verify ev token (secret ev) = Inr p \<and> findUserById d (jwt_userId p) = None \<longrightarrow>
            authenticate ev (Some h) d =
              Rejected (unauthorized ''User account no longer exists.'')) \<and>
         (\<forall>m. code (unauthorized m) = 401 \<and> message (unauthorized m) = Some m)"
proof -
  from assms(1) have ne: "h \<noteq> []" by (auto simp: startsWith_Bearer)
  from bearer_token [OF assms(1)] assms(2) have tok: "index (split CHR '' '' h) 1 = Some token"
    by simp
  show ?thesis
    using ne assms(1) tok by (simp add: authenticate_def unauthorized_def)
qed

theorem authenticate_failure_modes_witness:
  "authenticate sample_env (Some ''Bearer tok-old'') sample_db =
     Rejected (unauthorized ''Token has expired.'') \<and>
   authenticate sample_env (Some ''Bearer not.a.token'') sample_db =
     Rejected (unauthorized ''Invalid token.'') \<and>
   authenticate sample_env (Some ''Bearer tok-u9'') sample_db =
     Rejected (unauthorized ''User account no longer exists.'')"
proof -
  have s1: "startsWith ''Bearer tok-old'' ''Bearer ''"
    and s2: "startsWith ''Bearer not.a.token'' ''Bearer ''"
    and s3: "startsWith ''Bearer tok-u9'' ''Bearer ''"
    by (simp_all add: startsWith_def)
  have t1: "''tok-old'' = takeWhile (\<lambda>c. c \<noteq> CHR '' '') (drop 7 ''Bearer tok-old'')"
    and t2: "''not.a.token'' = takeWhile (\<lambda>c. c \<noteq> CHR '' '') (drop 7 ''Bearer not.a.token'')"
    and t3: "''tok-u9'' = takeWhile (\<lambda>c. c \<noteq> CHR '' '') (drop 7 ''Bearer tok-u9'')"
    by simp_all
  have v1: "jwt_verify sample_env ''tok-old'' (secret sample_env) = Inl TokenExpiredError"
    and v2: "jwt_verify sample_env ''not.a.token'' (secret sample_env) = Inl JsonWebTokenError"
    and v3: "jwt_verify sample_env ''tok-u9'' (secret sample_env) =
      Inr \<lparr>jwt_userId = ''u9'', jwt_email = ''zoe@x.com'', jwt_iat = Some 0, jwt_exp = Some 10\<rparr>"
    by (simp_all add: sample_defs)
  have g: "findUserById sample_db ''u9'' = None"
    by (simp add: findUserById_def sample_defs)
  show ?thesis
    using authenticate_failure_modes [OF s1 t1, of sample_env sample_db]
      authenticate_failure_modes [OF s2 t2, of sample_env sample_db]
      authenticate_failure_modes [OF s3 t3, of sample_env sample_db]
      v1 v2 v3 g
    by simp
qed

lemma authenticate_no_token_iff:
  "authenticate ev hdr d = Rejected (unauthorized ''Access denied. No token provided.'') \<longleftrightarrow>
     (hdr = None \<or> hdr = Some [] \<or> (\<exists>h. hdr = Some h \<and> \<not> startsWith h ''Bearer ''))"
proof (cases hdr)
  case None
  then show ?thesis by (simp add: authenticate_def)
next
  case (Some h)
  show ?thesis
  proof (cases "h = [] \<or> \<not> startsWith h ''Bearer ''")
    case True
    with Some show ?thesis by (auto simp: authenticate_def)
  next
    case False
    then have sw: "startsWith h ''Bearer ''" and ne: "h \<noteq> []" by auto
    from bearer_token [OF sw] obtain token where tok: "index (split CHR '' '' h) 1 = Some token"
      by blast
    have "authenticate ev (Some h) d \<noteq>
            Rejected (unauthorized ''Access denied. No token provided.'')"
      using sw ne tok
      by (simp add: authenticate_def unauthorized_def split: sum.split option.split)
    with Some sw ne show ?thesis by simp
  qed
qed

text \<open>
  Claim C5, as the middleware has it. The request is rejected with the 401 response
  \<open>Access denied. No token provided.\<close> exactly when the header is missing, empty or does
  not start with \<open>Bearer\<close> and a space. Every header with that prefix passes the format
  check: the token is what stands between the first and the second space, and whatever
  follows a second space is ignored.
\<close>

theorem authenticate_format_check:
  "(authenticate ev hdr d = Rejected (unauthorized ''Access denied. No token provided.'') \<longleftrightarrow>
     (hdr = None \<or> hdr = Some [] \<or> (\<exists>h. hdr = Some h \<and> \<not> startsWith h ''Bearer ''))) \<and>
   (\<forall>h. hdr = Some h \<and> startsWith h ''Bearer '' \<longrightarrow>
      authenticate ev hdr d =
      authenticate ev (Some (''Bearer '' @ takeWhile (\<lambda>c. c \<noteq> CHR '' '') (drop 7 h))) d)"
proof (intro conjI allI impI)
  show "authenticate ev hdr d = Rejected (unauthorized ''Access denied. No token provided.'') \<longleftrightarrow>
     (hdr = None \<or> hdr = Some [] \<or> (\<exists>h. hdr = Some h \<and> \<not> startsWith h ''Bearer ''))"
    by (rule authenticate_no_token_iff)
next
  fix h
  let ?tok = "takeWhile (\<lambda>c. c \<noteq> CHR '' '') (drop 7 h)"
  let ?h' = "''Bearer '' @ ?tok"
  assume a: "hdr = Some h \<and> startsWith h ''Bearer ''"
  then have sw: "startsWith h ''Bearer ''" and ne: "h \<noteq> []"
    by (auto simp: startsWith_Bearer)
  have sw': "startsWith ?h' ''Bearer ''" and ne': "?h' \<noteq> []"
    by (auto simp: startsWith_Bearer)
  have "drop 7 ?h' = ?tok" by simp
  with bearer_token [OF sw'] have t': "index (split CHR '' '' ?h') 1 = Some ?tok"
    by (simp only: takeWhile_idem)
  from a sw ne sw' ne' bearer_token [OF sw] t'
  show "authenticate ev hdr d = authenticate ev (Some ?h') d"
    by (simp only: authenticate_def option.case if_False simp_thms)
qed

theorem authenticate_format_check_witness:
  "authenticate sample_env (Some ''Basic tok-u1'') sample_db =
     Rejected (unauthorized ''Access denied. No token provided.'') \<and>
   authenticate sample_env (Some ''Bearer tok-u1 and more'') sample_db =
     authenticate sample_env (Some ''Bearer tok-u1'') sample_db"
  using authenticate_format_check [of sample_env "Some ''Basic tok-u1''" sample_db]
    authenticate_format_check [of sample_env "Some ''Bearer tok-u1 and more''" sample_db]
  by (simp add: startsWith_def)

text \<open>
  A header with more than one piece after the prefix is let through, and one with an
  empty token passes the format check and is rejected as an invalid token.
\<close>

theorem bearer_prefix_counterexample:
  "authenticate sample_env (Some ''Bearer tok-u1 and more'') sample_db =
     Next \<lparr>jwt_userId = ''u1'', jwt_email = ''alice@x.com'',
           jwt_iat = Some 0, jwt_exp = Some 10\<rparr> \<and>
   authenticate sample_env (Some ''Bearer '') sample_db = Rejected (unauthorized ''Invalid token.'')"
  by (simp add: authenticate_def startsWith_def index_def findUserById_def sample_defs)

section \<open>Listing tasks\<close>

text \<open>
  Claim C6, as the handler has it. A filter counts when its query value is a non-empty
  string; an empty string is treated like a missing parameter. For every requester and
  query, ListTasks answers 200 with exactly the tasks of the store that the requester
  owns and that pass every filter that counts (status equal, priority equal, the search
  text after \<open>toLowerCase\<close> a substring of the title or of the description after
  \<open>toLowerCase\<close>), each as often as the store has it; the list is in descending order of
  \<open>createdAt\<close>, and tasks with the same \<open>createdAt\<close> keep their retrieval order.
\<close>

theorem getTasks_filtered_sorted:
  fixes q :: query and uid :: string and d :: db and ev :: env
  defines "wanted \<equiv> \<lambda>t. userId t = uid \<and>
      (\<forall>s. q_status q = QString s \<and> s \<noteq> [] \<longrightarrow> status t = s) \<and>
      (\<forall>s. q_priority q = QString s \<and> s \<noteq> [] \<longrightarrow> priority t = s) \<and>
      (\<forall>s. q_search q = QString s \<and> s \<noteq> [] \<longrightarrow>
         sublist (toLowerCase ev s) (toLowerCase ev (title t)) \<or>
         sublist (toLowerCase ev s) (toLowerCase ev (description t)))"
  shows "\<exists>ts. getTasks ev uid q d =
            \<lparr>code = 200, success = True, data = Some (TasksData ts),
             message = None, errors = None\<rparr> \<and>
          mset ts = mset (filter wanted (tasks d)) \<and>
          sorted_wrt (\<lambda>a b. createdAt b \<le> createdAt a) ts \<and>
          (\<forall>k. filter (\<lambda>t. createdAt t = k) ts =
                filter (\<lambda>t. createdAt t = k) (filter wanted (tasks d)))"
proof -
  let ?st = "\<lambda>t. truthy (q_status q) \<and> typeof_string (q_status q) \<longrightarrow>
      QString (status t) = q_status q"
  let ?pr = "\<lambda>t. truthy (q_priority q) \<and> typeof_string (q_priority q) \<longrightarrow>
      QString (priority t) = q_priority q"
  let ?se = "\<lambda>t. truthy (q_search q) \<and> typeof_string (q_search q) \<longrightarrow>
      str_includes (toLowerCase ev (title t)) (toLowerCase ev (the_string (q_search q))) \<or>
      str_includes (toLowerCase ev (description t)) (toLowerCase ev (the_string (q_search q)))"
  let ?sel = "filter (\<lambda>t. userId t = uid \<and> ?st t \<and> ?pr t \<and> ?se t) (tasks d)"
  have g: "getTasks ev uid q d =
      \<lparr>code = 200, success = True,
       data = Some (TasksData (sort_by (\<lambda>a b. createdAt b - createdAt a) ?sel)),
       message = None, errors = None\<rparr>"
    by (simp add: getTasks_def getTasksByUser_def Let_def conj_commute conj_left_commute
        cong: conj_cong)
  have st: "?st t \<longleftrightarrow> (\<forall>s. q_status q = QString s \<and> s \<noteq> [] \<longrightarrow> status t = s)" for t
    by (cases "q_status q") auto
  have pr: "?pr t \<longleftrightarrow> (\<forall>s. q_priority q = QString s \<and> s \<noteq> [] \<longrightarrow> priority t = s)" for t
    by (cases "q_priority q") auto
  have se: "?se t \<longleftrightarrow> (\<forall>s. q_search q = QString s \<and> s \<noteq> [] \<longrightarrow>
         sublist (toLowerCase ev s) (toLowerCase ev (title t)) \<or>
         sublist (toLowerCase ev s) (toLowerCase ev (description t)))" for t
    by (cases "q_search q") (auto simp: str_includes_sublist)
  have w: "?sel = filter wanted (tasks d)"
    unfolding wanted_def st pr se ..
  show ?thesis
    unfolding g w
    by (rule exI [where x = "sort_by (\<lambda>a b. createdAt b - createdAt a) (filter wanted (tasks d))"])
      (simp add: mset_sort_by sorted_desc_sort_by stable_sort_by)
qed

theorem getTasks_filtered_sorted_witness:
  "getTasks sample_env ''u1'' \<lparr>q_status = QString ''done'', q_priority = QString ''high'',
                               q_search = QString ''REPORT''\<rparr> sample_db =
     \<lparr>code = 200, success = True, data = Some (TasksData [task_c]),
      message = None, errors = None\<rparr>"
proof -
  let ?q = "\<lparr>q_status = QString ''done'', q_priority = QString ''high'',
             q_search = QString ''REPORT''\<rparr>"
  from getTasks_filtered_sorted [of sample_env "''u1''" "?q" sample_db]
  obtain ts where g: "getTasks sample_env ''u1'' ?q sample_db =
            \<lparr>code = 200, success = True, data = Some (TasksData ts),
             message = None, errors = None\<rparr>"
    and m: "mset ts = mset (filter (\<lambda>t. userId t = ''u1'' \<and>
      (\<forall>s. q_status ?q = QString s \<and> s \<noteq> [] \<longrightarrow> status t = s) \<and>
      (\<forall>s. q_priority ?q = QString s \<and> s \<noteq> [] \<longrightarrow> priority t = s) \<and>
      (\<forall>s. q_search ?q = QString s \<and> s \<noteq> [] \<longrightarrow>
         sublist (toLowerCase sample_env s) (toLowerCase sample_env (title t)) \<or>
         sublist (toLowerCase sample_env s) (toLowerCase sample_env (description t))))
        (tasks sample_db))"
    by blast
  have "mset ts = {#task_c#}"
    unfolding m
    by (simp add: sample_defs str_includes_sublist [symmetric] lower_eval)
  then have "ts = [task_c]" by (metis mset_single_iff_right)
  with g show ?thesis by simp
qed

text \<open>
  A status given as the empty string: the answer holds a task whose status is not the
  empty string.
\<close>

theorem getTasks_empty_status_counterexample:
  "getTasks sample_env ''u1''
     \<lparr>q_status = QString [], q_priority = QUndefined, q_search = QUndefined\<rparr> sample_db =
     \<lparr>code = 200, success = True, data = Some (TasksData [task_a, task_c]),
      message = None, errors = None\<rparr> \<and>
   status task_a \<noteq> []"
  by (simp add: getTasks_def getTasksByUser_def sort_by_def sample_defs)

section \<open>Updating a task\<close>

text \<open>
  What the update handler answers, for an existing task owned by the requester: the
  task it answers with has the id, owner and \<open>createdAt\<close> of the old one, whatever the
  body, and the current time as \<open>updatedAt\<close>; each of title, description, status,
  priority and due date is the old value when the body lacks the field, and the value of
  the body (title and description after \<open>trim\<close>) when it has it; a due date of \<open>null\<close>
  gives a task without due date. With the body \<open>{status: "done"}\<close> the answer is the
  old task with status \<open>done\<close> and the new \<open>updatedAt\<close>.
\<close>

lemma updateTask_response:
  assumes "findTaskById d tid = Some t" and "userId t = uid"
  shows "\<exists>t'. fst (updateTask ev uid tid body d) =
             \<lparr>code = 200, success = True, data = Some (TaskData t'),
              message = Some ''Task updated successfully.'', errors = None\<rparr> \<and>
           task_id t' = task_id t \<and> userId t' = userId t \<and> createdAt t' = createdAt t \<and>
           updatedAt t' = now ev \<and>
           (tb_title body = None \<longrightarrow> title t' = title t) \<and>
           (\<forall>s. tb_title body = Some s \<longrightarrow> title t' = trim ev s) \<and>
           (tb_description body = None \<longrightarrow> description t' = description t) \<and>
           (\<forall>s. tb_description body = Some s \<longrightarrow> description t' = trim ev s) \<and>
           (tb_status body = None \<longrightarrow> status t' = status t) \<and>
           (\<forall>s. tb_status body = Some s \<longrightarrow> status t' = s) \<and>
           (tb_priority body = None \<longrightarrow> priority t' = priority t) \<and>
           (\<forall>s. tb_priority body = Some s \<longrightarrow> priority t' = s) \<and>
           (tb_dueDate body = Undefined \<longrightarrow> dueDate t' = dueDate t) \<and>
           (tb_dueDate body = Null \<longrightarrow> dueDate t' = None) \<and>
           (\<forall>s. tb_dueDate body = Value s \<longrightarrow> dueDate t' = Some (DateString s)) \<and>
           (body = done_body \<longrightarrow> t' = t\<lparr>status := ''done'', updatedAt := now ev\<rparr>)"
  unfolding updateTask_owned [OF assms]
  by (rule exI [where x = "t\<lparr>
          title := (case tb_title body of Some s \<Rightarrow> trim ev s | None \<Rightarrow> title t),
          description :=
            (case tb_description body of Some s \<Rightarrow> trim ev s | None \<Rightarrow> description t),
          status := (case tb_status body of Some s \<Rightarrow> s | None \<Rightarrow> status t),
          priority := (case tb_priority body of Some s \<Rightarrow> s | None \<Rightarrow> priority t),
          dueDate := (case tb_dueDate body of
                        Undefined \<Rightarrow> dueDate t | Null \<Rightarrow> None | Value s \<Rightarrow> Some (DateString s)),
          updatedAt := now ev\<rparr>"])
    (simp add: done_body_def)

text \<open>
  What the update handler stores when the body has no due date and the task read from
  the store carries its due date as a \<open>Date\<close> object. Three facts about what lies
  outside are assumed: the date part of \<open>toISOString()\<close> is the UTC day of the time
  value (read back by \<open>new Date\<close> it is midnight UTC of that day), and the driver hands a
  \<open>DATE\<close> column over as midnight of that day in the local time of the server, which is
  also how the task got its due date. On a server ahead of UTC the local midnight of a
  day lies in the UTC day before, so the date written is the day before the due date.
\<close>

lemma stored_dueDate_moves:
  assumes "findTaskById d tid = Some t" and "userId t = uid"
    and "tb_dueDate body = Undefined"
    and "0 < tz_offset ev" and "tz_offset ev \<le> 86400000"
    and "dueDate t = Some (DateObject m)" and "m = k * 86400000 - tz_offset ev"
    and "index (split CHR ''T'' (toISOString ev m)) 0 = Some s"
    and "date_time ev s = Some ((m div 86400000) * 86400000)"
    and "\<forall>s u. date_time ev s = Some u \<longrightarrow> date_column ev s = DateObject (u - tz_offset ev)"
  shows "\<exists>row. findTaskById (snd (updateTask ev uid tid body d)) tid = Some row \<and>
           dueDate row = Some (DateObject (m - 86400000)) \<and>
           dueDate row \<noteq> dueDate t \<and>
           title row = (case tb_title body of Some s \<Rightarrow> trim ev s | None \<Rightarrow> title t) \<and>
           description row =
             (case tb_description body of Some s \<Rightarrow> trim ev s | None \<Rightarrow> description t) \<and>
           status row = (case tb_status body of Some s \<Rightarrow> s | None \<Rightarrow> status t) \<and>
           priority row = (case tb_priority body of Some s \<Rightarrow> s | None \<Rightarrow> priority t) \<and>
           task_id row = task_id t \<and> userId row = userId t \<and> createdAt row = createdAt t \<and>
           updatedAt row = db_now ev"
proof -
  let ?t' = "t\<lparr>
       title := (case tb_title body of Some s \<Rightarrow> trim ev s | None \<Rightarrow> title t),
       description := (case tb_description body of Some s \<Rightarrow> trim ev s | None \<Rightarrow> description t),
       status := (case tb_status body of Some s \<Rightarrow> s | None \<Rightarrow> status t),
       priority := (case tb_priority body of Some s \<Rightarrow> s | None \<Rightarrow> priority t),
       dueDate := (case tb_dueDate body of
                     Undefined \<Rightarrow> dueDate t | Null \<Rightarrow> None | Value s \<Rightarrow> Some (DateString s)),
       updatedAt := now ev\<rparr>"
  have tid: "task_id t = tid" using assms(1) by (rule findTaskById_id)
  then have f: "findTaskById d (task_id ?t') = Some t" using assms(1) by simp
  have day: "m div 86400000 = k - 1"
    unfolding assms(7) using assms(4,5) by (rule local_midnight_utc_day_ahead)
  have "date_column ev s = DateObject ((m div 86400000) * 86400000 - tz_offset ev)"
    using assms(9,10) by blast
  also have "(m div 86400000) * 86400000 - tz_offset ev = m - 86400000"
    unfolding day by (simp add: assms(7) algebra_simps)
  finally have col: "date_column ev s = DateObject (m - 86400000)" .
  have fmt: "map_option (date_column ev) (formattedDueDate ev (dueDate ?t')) =
      Some (DateObject (m - 86400000))"
    using assms(3,6,8) col by (simp add: formattedDueDate_def)
  have r: "findTaskById (saveTask ev d ?t') tid =
      Some (?t'\<lparr>dueDate := Some (DateObject (m - 86400000)), updatedAt := db_now ev,
                createdAt := createdAt t\<rparr>)"
    using saveTask_existing(1) [where ev = ev, OF f] tid fmt by simp
  show ?thesis
    unfolding updateTask_owned [OF assms(1,2)] snd_conv r
    using assms(6) by simp
qed

lemma iso_due_date: "iso_string 1718821800000 = ''2024-06-19T18:30:00.000Z''"
  by code_simp

lemma date_only_2024_06_19: "date_only_time ''2024-06-19'' = Some 1718755200000"
  by (simp add: date_only_time_def digit_def days_from_civil_def days_in_month_def)

lemma east_sample_facts:
  "findTaskById east_db ''t4'' = Some task_d"
  "userId task_d = ''u1''"
  "0 < tz_offset east_env"
  "tz_offset east_env \<le> 86400000"
  "dueDate task_d = Some (DateObject 1718821800000)"
  "(1718821800000 :: int) = 19894 * 86400000 - tz_offset east_env"
  "index (split CHR ''T'' (toISOString east_env 1718821800000)) 0 = Some ''2024-06-19''"
  "date_time east_env ''2024-06-19'' = Some ((1718821800000 div 86400000) * 86400000)"
  "\<forall>s u. date_time east_env s = Some u \<longrightarrow>
     date_column east_env s = DateObject (u - tz_offset east_env)"
  by (simp_all add: findTaskById_def east_db_def task_d_def east_env_def sample_env_def
      iso_due_date date_only_2024_06_19 index_def local_midnight_column_def)

text \<open>
  Claim C7, where the code departs from it. On a server ahead of UTC, with the driver
  handing a \<open>DATE\<close> column over as local midnight, UpdateTask with the body
  \<open>{status: "done"}\<close> on an owned task that has a due date answers with the old task,
  only status and \<open>updatedAt\<close> changed, but the row it stores has the due date moved
  one day back: a field other than status and \<open>updatedAt\<close> has changed. Id, owner and
  \<open>createdAt\<close> of the row are the old ones and its \<open>updatedAt\<close> is refreshed.
\<close>

theorem updateTask_done_moves_stored_dueDate:
  assumes "findTaskById d tid = Some t" and "userId t = uid"
    and "0 < tz_offset ev" and "tz_offset ev \<le> 86400000"
    and "dueDate t = Some (DateObject m)" and "m = k * 86400000 - tz_offset ev"
    and "index (split CHR ''T'' (toISOString ev m)) 0 = Some s"
    and "date_time ev s = Some ((m div 86400000) * 86400000)"
    and "\<forall>s u. date_time ev s = Some u \<longrightarrow> date_column ev s = DateObject (u - tz_offset ev)"
  shows "\<exists>row.
           fst (updateTask ev uid tid done_body d) =
             \<lparr>code = 200, success = True,
              data = Some (TaskData (t\<lparr>status := ''done'', updatedAt := now ev\<rparr>)),
              message = Some ''Task updated successfully.'', errors = None\<rparr> \<and>
           findTaskById (snd (updateTask ev uid tid done_body d)) tid = Some row \<and>
           row = t\<lparr>status := ''done'', dueDate := Some (DateObject (m - 86400000)),
                   updatedAt := db_now ev\<rparr> \<and>
           dueDate row \<noteq> dueDate t"
proof -
  have b: "tb_dueDate done_body = Undefined" by (simp add: done_body_def)
  from stored_dueDate_moves [OF assms(1,2) b assms(3-9)]
  obtain row where r: "findTaskById (snd (updateTask ev uid tid done_body d)) tid = Some row"
    and f: "dueDate row = Some (DateObject (m - 86400000))" "dueDate row \<noteq> dueDate t"
      "title row = title t" "description row = description t" "status row = ''done''"
      "priority row = priority t" "task_id row = task_id t" "userId row = userId t"
      "createdAt row = createdAt t" "updatedAt row = db_now ev"
    by (auto simp: done_body_def)
  from f have e: "row = t\<lparr>status := ''done'', dueDate := Some (DateObject (m - 86400000)),
                          updatedAt := db_now ev\<rparr>"
    by simp
  have "fst (updateTask ev uid tid done_body d) =
             \<lparr>code = 200, success = True,
              data = Some (TaskData (t\<lparr>status := ''done'', updatedAt := now ev\<rparr>)),
              message = Some ''Task updated successfully.'', errors = None\<rparr>"
    unfolding updateTask_owned [OF assms(1,2)] by (simp add: done_body_def)
  with r e f(2) show ?thesis by blast
qed

theorem updateTask_done_moves_stored_dueDate_witness:
  "fst (updateTask east_env ''u1'' ''t4'' done_body east_db) =
     \<lparr>code = 200, success = True,
      data = Some (TaskData (task_d\<lparr>status := ''done'', updatedAt := 1718463600000\<rparr>)),
      message = Some ''Task updated successfully.'', errors = None\<rparr> \<and>
   findTaskById (snd (updateTask east_env ''u1'' ''t4'' done_body east_db)) ''t4'' =
     Some (task_d\<lparr>status := ''done'', dueDate := Some (DateObject 1718735400000),
                  updatedAt := 1718463600005\<rparr>) \<and>
   dueDate task_d = Some (DateObject 1718821800000) \<and>
   toISOString east_env 1718821800000 = ''2024-06-19T18:30:00.000Z'' \<and>
   date_column east_env ''2024-06-20'' = DateObject 1718821800000 \<and>
   date_column east_env ''2024-06-19'' = DateObject 1718735400000"
proof -
  from updateTask_done_moves_stored_dueDate [OF east_sample_facts]
  obtain row where
    a: "fst (updateTask east_env ''u1'' ''t4'' done_body east_db) =
             \<lparr>code = 200, success = True,
              data = Some (TaskData (task_d\<lparr>status := ''done'', updatedAt := now east_env\<rparr>)),
              message = Some ''Task updated successfully.'', errors = None\<rparr>"
    and r: "findTaskById (snd (updateTask east_env ''u1'' ''t4'' done_body east_db)) ''t4'' =
              Some row"
    and e: "row = task_d\<lparr>status := ''done'',
                         dueDate := Some (DateObject (1718821800000 - 86400000)),
                         updatedAt := db_now east_env\<rparr>"
    by blast
  have n: "now east_env = 1718463600000" "db_now east_env = 1718463600005"
    by (simp_all add: east_env_def sample_env_def)
  have c: "date_column east_env ''2024-06-20'' = DateObject 1718821800000"
    "date_column east_env ''2024-06-19'' = DateObject 1718735400000"
    by (simp_all add: east_env_def sample_env_def local_midnight_column_def
        date_only_time_def digit_def days_from_civil_def days_in_month_def)
  have i: "toISOString east_env 1718821800000 = ''2024-06-19T18:30:00.000Z''"
    by (simp add: east_env_def sample_env_def iso_due_date)
  from a r e show ?thesis
    unfolding n using c i east_sample_facts(5) by simp
qed

text \<open>
  Claim C8, where the code departs from it. The task UpdateTask answers with merges the
  body as the claim says (\<open>updateTask_response\<close>). But on a server ahead of UTC, with
  the driver handing a \<open>DATE\<close> column over as local midnight, an update whose body has
  no \<open>dueDate\<close> key stores the due date of an owned task one day back: the field is
  absent from the body and does not keep its value.
\<close>

theorem updateTask_absent_dueDate_rewritten:
  assumes "findTaskById d tid = Some t" and "userId t = uid"
    and "tb_dueDate body = Undefined"
    and "0 < tz_offset ev" and "tz_offset ev \<le> 86400000"
    and "dueDate t = Some (DateObject m)" and "m = k * 86400000 - tz_offset ev"
    and "index (split CHR ''T'' (toISOString ev m)) 0 = Some s"
    and "date_time ev s = Some ((m div 86400000) * 86400000)"
    and "\<forall>s u. date_time ev s = Some u \<longrightarrow> date_column ev s = DateObject (u - tz_offset ev)"
  shows "\<exists>t' row.
           fst (updateTask ev uid tid body d) =
             \<lparr>code = 200, success = True, data = Some (TaskData t'),
              message = Some ''Task updated successfully.'', errors = None\<rparr> \<and>
           dueDate t' = dueDate t \<and>
           findTaskById (snd (updateTask ev uid tid body d)) tid = Some row \<and>
           dueDate row = Some (DateObject (m - 86400000)) \<and>
           dueDate row \<noteq> dueDate t"
proof -
  from updateTask_response [OF assms(1,2), of ev body] assms(3)
  obtain t' where "fst (updateTask ev uid tid body d) =
             \<lparr>code = 200, success = True, data = Some (TaskData t'),
              message = Some ''Task updated successfully.'', errors = None\<rparr>"
    and "dueDate t' = dueDate t"
    by blast
  moreover from stored_dueDate_moves [OF assms]
  obtain row where "findTaskById (snd (updateTask ev uid tid body d)) tid = Some row"
    and "dueDate row = Some (DateObject (m - 86400000))" and "dueDate row \<noteq> dueDate t"
    by blast
  ultimately show ?thesis by blast
qed

theorem updateTask_absent_dueDate_rewritten_witness:
  "tb_dueDate rename_body = Undefined \<and>
   findTaskById east_db ''t4'' = Some task_d \<and>
   dueDate task_d = Some (DateObject 1718821800000) \<and>
   fst (updateTask east_env ''u1'' ''t4'' rename_body east_db) =
     \<lparr>code = 200, success = True,
      data = Some (TaskData (task_d\<lparr>title := ''File the taxes'', updatedAt := 1718463600000\<rparr>)),
      message = Some ''Task updated successfully.'', errors = None\<rparr> \<and>
   findTaskById (snd (updateTask east_env ''u1'' ''t4'' rename_body east_db)) ''t4'' =
     Some (task_d\<lparr>title := ''File the taxes'', dueDate := Some (DateObject 1718735400000),
                  updatedAt := 1718463600005\<rparr>)"
proof -
  have b: "tb_dueDate rename_body = Undefined" by (simp add: rename_body_def)
  from updateTask_absent_dueDate_rewritten
    [OF east_sample_facts(1,2) b east_sample_facts(3-9)]
  obtain t' row where
    a: "fst (updateTask east_env ''u1'' ''t4'' rename_body east_db) =
             \<lparr>code = 200, success = True, data = Some (TaskData t'),
              message = Some ''Task updated successfully.'', errors = None\<rparr>"
    and r: "findTaskById (snd (updateTask east_env ''u1'' ''t4'' rename_body east_db)) ''t4'' =
              Some row"
    and dd: "dueDate row = Some (DateObject (1718821800000 - 86400000))"
    by blast
  have t': "fst (updateTask east_env ''u1'' ''t4'' rename_body east_db) =
     \<lparr>code = 200, success = True,
      data = Some (TaskData (task_d\<lparr>title := ''File the taxes'', updatedAt := 1718463600000\<rparr>)),
      message = Some ''Task updated successfully.'', errors = None\<rparr>"
    unfolding updateTask_owned [OF east_sample_facts(1,2)]
    by (simp add: rename_body_def east_env_def sample_env_def trim_eval)
  have rest: "row\<lparr>dueDate := None\<rparr> =
      task_d\<lparr>title := ''File the taxes'', dueDate := None, updatedAt := 1718463600005\<rparr>"
    using r
    by (clarsimp simp: updateTask_def saveTask_def findTaskById_def Let_def east_db_def
        task_d_def rename_body_def east_env_def sample_env_def trim_eval)
  have "row = row\<lparr>dueDate := dueDate row\<rparr>" by simp
  also have "\<dots> = (row\<lparr>dueDate := None\<rparr>)\<lparr>dueDate := Some (DateObject 1718735400000)\<rparr>"
    using dd by simp
  also have "\<dots> = task_d\<lparr>title := ''File the taxes'',
                          dueDate := Some (DateObject 1718735400000),
                          updatedAt := 1718463600005\<rparr>"
    unfolding rest by simp
  finally have "row = task_d\<lparr>title := ''File the taxes'',
                             dueDate := Some (DateObject 1718735400000),
                             updatedAt := 1718463600005\<rparr>" .
  with r t' b east_sample_facts(1,5) show ?thesis by simp
qed

section \<open>Due dates at the day boundary\<close>

text \<open>
  Claim C9, where the code departs from it. On a server behind UTC, a due date that is
  the current local calendar day, given as a date-only string and therefore read as
  midnight UTC of that day, is before the local midnight the validator compares with:
  creating or updating a task with it is answered with the 422 response carrying
  \<open>Due date cannot be in the past.\<close>, and the store is left as it was.
\<close>

theorem dueDate_today_rejected_behind_utc:
  assumes "tz_offset ev < 0" and "s \<noteq> []"
    and "date_time ev s = Some (((now ev + tz_offset ev) div 86400000) * 86400000)"
    and "authenticate ev hdr d = Next user"
    and "tb_dueDate body = Value s"
  shows "\<exists>errs errs'.
           post_task ev hdr body d =
             (\<lparr>code = 422, success = False, data = None,
               message = Some ''Validation failed.'', errors = Some errs\<rparr>, d) \<and>
           patch_task ev hdr tid body d =
             (\<lparr>code = 422, success = False, data = None,
               message = Some ''Validation failed.'', errors = Some errs'\<rparr>, d) \<and>
           ''Due date cannot be in the past.'' \<in> set errs \<and>
           ''Due date cannot be in the past.'' \<in> set errs'"
proof -
  let ?rest = "isIn [''todo'', ''in-progress'', ''done'']
                 ''Status must be todo, in-progress, or done.'' (tb_status body) @
               isIn [''low'', ''medium'', ''high'']
                 ''Priority must be low, medium, or high.'' (tb_priority body) @
               dueDate_chain ev (tb_dueDate body)"
  have m: "''Due date cannot be in the past.'' \<in> set (dueDate_chain ev (tb_dueDate body))"
    using past_message_today [OF assms(1-3)] assms(5) by simp
  then have ne: "?rest \<noteq> []" by auto
  show ?thesis
    apply (rule exI [where x = "title_required ev body @ ?rest"])
    apply (rule exI [where x = "title_optional ev body @ ?rest"])
    using m ne assms(4)
    apply (simp add: post_task_def patch_task_def validate_def)
    done
qed

theorem dueDate_today_rejected_behind_utc_witness:
  "tz_offset sample_env < 0 \<and>
   (now sample_env + tz_offset sample_env) div 86400000 = days_from_civil 2024 6 15 \<and>
   date_time sample_env ''2024-06-15'' = Some (days_from_civil 2024 6 15 * 86400000) \<and>
   post_task sample_env (Some ''Bearer tok-u1'') milk_today sample_db =
     (\<lparr>code = 422, success = False, data = None, message = Some ''Validation failed.'',
       errors = Some [''Due date cannot be in the past.'']\<rparr>, sample_db) \<and>
   patch_task sample_env (Some ''Bearer tok-u1'') ''t1'' milk_today sample_db =
     (\<lparr>code = 422, success = False, data = None, message = Some ''Validation failed.'',
       errors = Some [''Due date cannot be in the past.'']\<rparr>, sample_db)"
proof -
  have tz: "tz_offset sample_env < 0" by (simp add: sample_env_def)
  have ne: "''2024-06-15'' \<noteq> []" by simp
  have day: "(now sample_env + tz_offset sample_env) div 86400000 = days_from_civil 2024 6 15"
    by (simp add: sample_env_def days_from_civil_def)
  have dt: "date_time sample_env ''2024-06-15'' =
      Some (((now sample_env + tz_offset sample_env) div 86400000) * 86400000)"
    by (simp add: sample_env_def date_only_2024_06_15)
  have au: "authenticate sample_env (Some ''Bearer tok-u1'') sample_db =
      Next \<lparr>jwt_userId = ''u1'', jwt_email = ''alice@x.com'',
            jwt_iat = Some 0, jwt_exp = Some 10\<rparr>"
    by (simp add: authenticate_def startsWith_def index_def findUserById_def sample_defs)
  have bd: "tb_dueDate milk_today = Value ''2024-06-15''" by (simp add: milk_today_def)
  from dueDate_today_rejected_behind_utc [OF tz ne dt au bd, of "''t1''"]
  obtain errs errs' where
    p: "post_task sample_env (Some ''Bearer tok-u1'') milk_today sample_db =
           (\<lparr>code = 422, success = False, data = None,
             message = Some ''Validation failed.'', errors = Some errs\<rparr>, sample_db)"
    and q: "patch_task sample_env (Some ''Bearer tok-u1'') ''t1'' milk_today sample_db =
           (\<lparr>code = 422, success = False, data = None,
             message = Some ''Validation failed.'', errors = Some errs'\<rparr>, sample_db)"
    by blast
  have c: "isIn [''todo'', ''in-progress'', ''done'']
          ''Status must be todo, in-progress, or done.'' (tb_status milk_today) @
        isIn [''low'', ''medium'', ''high'']
          ''Priority must be low, medium, or high.'' (tb_priority milk_today) @
        dueDate_chain sample_env (tb_dueDate milk_today) = [''Due date cannot be in the past.'']"
    by (simp add: isIn_def dueDate_chain_def start_of_local_day_def
        milk_today_def sample_env_def date_only_2024_06_15)
  have r: "title_required sample_env milk_today = []"
    and o: "title_optional sample_env milk_today = []"
    by (simp_all add: title_required_def title_optional_def trim_eval milk_today_def
        sample_env_def)
  have "errs = [''Due date cannot be in the past.'']"
    using p c r au by (simp add: post_task_def validate_def)
  moreover have "errs' = [''Due date cannot be in the past.'']"
    using q c o au by (simp add: patch_task_def validate_def)
  ultimately show ?thesis using p q tz day dt by simp
qed

section \<open>Query values that are not strings\<close>

text \<open>
  Claim C10. A status, priority or search value of the query that is not a string (an
  array, as for a parameter given more than once, or a nested object) is ignored:
  ListTasks answers as if the parameter were missing, with status 200.
\<close>

theorem getTasks_ignores_non_strings:
  assumes "\<forall>s. v \<noteq> QString s"
  shows "getTasks ev uid (q\<lparr>q_status := v\<rparr>) d = getTasks ev uid (q\<lparr>q_status := QUndefined\<rparr>) d \<and>
         getTasks ev uid (q\<lparr>q_priority := v\<rparr>) d =
           getTasks ev uid (q\<lparr>q_priority := QUndefined\<rparr>) d \<and>
         getTasks ev uid (q\<lparr>q_search := v\<rparr>) d = getTasks ev uid (q\<lparr>q_search := QUndefined\<rparr>) d \<and>
         code (getTasks ev uid (q\<lparr>q_status := v\<rparr>) d) = 200 \<and>
         code (getTasks ev uid (q\<lparr>q_priority := v\<rparr>) d) = 200 \<and>
         code (getTasks ev uid (q\<lparr>q_search := v\<rparr>) d) = 200"
proof -
  from assms have "typeof_string v = False" by (cases v) auto
  then show ?thesis by (simp add: getTasks_def Let_def)
qed

theorem getTasks_ignores_non_strings_witness:
  "getTasks sample_env ''u1'' \<lparr>q_status = QArray [''todo'', ''done''], q_priority = QUndefined,
                               q_search = QUndefined\<rparr> sample_db =
   getTasks sample_env ''u1'' \<lparr>q_status = QUndefined, q_priority = QUndefined,
                               q_search = QUndefined\<rparr> sample_db \<and>
   getTasks sample_env ''u1'' \<lparr>q_status = QUndefined, q_priority = QUndefined,
                               q_search = QUndefined\<rparr> sample_db =
     \<lparr>code = 200, success = True, data = Some (TasksData [task_a, task_c]),
      message = None, errors = None\<rparr>"
proof -
  have h: "\<forall>s. QArray [''todo'', ''done''] \<noteq> QString s" by simp
  from getTasks_ignores_non_strings [OF h, of sample_env "''u1''"
      "\<lparr>q_status = QUndefined, q_priority = QUndefined, q_search = QUndefined\<rparr>" sample_db]
  have "getTasks sample_env ''u1'' \<lparr>q_status = QArray [''todo'', ''done''],
                    q_priority = QUndefined, q_search = QUndefined\<rparr> sample_db =
   getTasks sample_env ''u1'' \<lparr>q_status = QUndefined, q_priority = QUndefined,
                    q_search = QUndefined\<rparr> sample_db"
    by simp
  moreover have "getTasks sample_env ''u1'' \<lparr>q_status = QUndefined, q_priority = QUndefined,
                    q_search = QUndefined\<rparr> sample_db =
     \<lparr>code = 200, success = True, data = Some (TasksData [task_a, task_c]),
      message = None, errors = None\<rparr>"
    by (simp add: getTasks_def getTasksByUser_def sort_by_def sample_defs)
  ultimately show ?thesis by simp
qed

end
